theory Spec2Isabelle
  imports Complex_Main "HOL-Library.AList"
begin

section \<open>Python strings\<close>

text \<open>
  Text is a list of characters. The model reads it as ASCII: the letters are
  \<open>A\<close>--\<open>Z\<close> and \<open>a\<close>--\<open>z\<close>, and case conversion touches only these.
  Confidence scores are Python floats in the source; the model computes with
  exact reals, so rounding is not represented.
\<close>

definition ascii_uppercase :: string where
  "ascii_uppercase = ''ABCDEFGHIJKLMNOPQRSTUVWXYZ''"

definition ascii_lowercase :: string where
  "ascii_lowercase = ''abcdefghijklmnopqrstuvwxyz''"

definition digits :: string where
  "digits = ''0123456789''"

definition is_upper :: "char \<Rightarrow> bool" where
  "is_upper c = (c \<in> set ascii_uppercase)"

definition is_lower :: "char \<Rightarrow> bool" where
  "is_lower c = (c \<in> set ascii_lowercase)"

text \<open>\<open>str.isspace\<close> on code points below 128: tab, line feed, vertical tab, form
  feed, carriage return, the four separators 28--31, and the blank.\<close>

definition is_space :: "char \<Rightarrow> bool" where
  "is_space c = (of_char c \<in> set [9, 10, 11, 12, 13, 28, 29, 30, 31, 32 :: nat])"

text \<open>The class \<open>\w\<close> of the \<open>re\<close> module: letters, digits and the underscore.\<close>

definition is_word :: "char \<Rightarrow> bool" where
  "is_word c = (is_upper c \<or> is_lower c \<or> c \<in> set digits \<or> c = CHR ''_'')"

definition lower_char :: "char \<Rightarrow> char" where
  "lower_char c = (case map_of (zip ascii_uppercase ascii_lowercase) c of
      Some d \<Rightarrow> d | None \<Rightarrow> c)"

definition upper_char :: "char \<Rightarrow> char" where
  "upper_char c = (case map_of (zip ascii_lowercase ascii_uppercase) c of
      Some d \<Rightarrow> d | None \<Rightarrow> c)"

definition py_lower :: "string \<Rightarrow> string" where
  "py_lower s = map lower_char s"

definition py_upper :: "string \<Rightarrow> string" where
  "py_upper s = map upper_char s"

text \<open>\<open>s.strip()\<close>: drop leading and trailing white space.\<close>

definition py_strip :: "string \<Rightarrow> string" where
  "py_strip s = rev (dropWhile is_space (rev (dropWhile is_space s)))"

text \<open>\<open>s.split()\<close>: the maximal runs of characters that are not white space.
  The accumulator holds the current run, reversed.\<close>

fun split_acc :: "string \<Rightarrow> string \<Rightarrow> string list" where
  "split_acc acc [] = (if acc = [] then [] else [rev acc])"
| "split_acc acc (c # cs) =
     (if is_space c then (if acc = [] then split_acc [] cs else rev acc # split_acc [] cs)
      else split_acc (c # acc) cs)"

definition py_split :: "string \<Rightarrow> string list" where
  "py_split s = split_acc [] s"

text \<open>\<open>sep.join(parts)\<close>.\<close>

fun py_join :: "string \<Rightarrow> string list \<Rightarrow> string" where
  "py_join sep [] = []"
| "py_join sep [p] = p"
| "py_join sep (p # q # ps) = p @ sep @ py_join sep (q # ps)"

text \<open>\<open>s[i:j]\<close> for \<open>0 \<le> i\<close>, \<open>j \<le> len(s)\<close>.\<close>

definition py_slice :: "string \<Rightarrow> nat \<Rightarrow> nat \<Rightarrow> string" where
  "py_slice s i j = take (j - i) (drop i s)"

fun starts_with :: "string \<Rightarrow> string \<Rightarrow> bool" where
  "starts_with [] s = True"
| "starts_with (p # ps) [] = False"
| "starts_with (p # ps) (c # cs) = (p = c \<and> starts_with ps cs)"

text \<open>\<open>sub in s\<close>: \<open>sub\<close> occurs in \<open>s\<close> as a contiguous piece.\<close>

fun py_in :: "string \<Rightarrow> string \<Rightarrow> bool" where
  "py_in sub [] = (sub = [])"
| "py_in sub (c # cs) = (starts_with sub (c # cs) \<or> py_in sub cs)"

text \<open>\<open>s.count(sub)\<close>: the number of non-overlapping occurrences, scanning from the
  left. The first argument of \<open>count_from\<close> is the number of characters still to be
  skipped after an occurrence.\<close>

fun count_from :: "nat \<Rightarrow> string \<Rightarrow> string \<Rightarrow> nat" where
  "count_from k sub [] = 0"
| "count_from (Suc k) sub (c # cs) = count_from k sub cs"
| "count_from 0 sub (c # cs) =
     (if starts_with sub (c # cs) then Suc (count_from (length sub - 1) sub cs)
      else count_from 0 sub cs)"

definition py_count :: "string \<Rightarrow> string \<Rightarrow> nat" where
  "py_count s sub = (if sub = [] then length s + 1 else count_from 0 sub s)"

section \<open>The regular expressions of the \<open>re\<close> module\<close>

text \<open>
  The source matches with Python's backtracking \<open>re\<close> engine. The model has the
  constructs the source's patterns use: an escaped literal, the classes \<open>[A-Z]\<close>,
  \<open>[a-z]\<close> and \<open>\s\<close>, the word boundary \<open>\b\<close>, sequence, ordered
  alternation, the greedy repetition \<open>{m,n}\<close> (with \<open>None\<close> for no upper bound)
  and the capturing group.
\<close>

datatype re =
    Lit string
  | Upper
  | Lower
  | Space
  | Bnd
  | Seq re re
  | Alt re re
  | Rep re nat "nat option"
  | Grp re

text \<open>A matcher state: the character before the position, the text from the
  position on, the position, and the groups captured so far.\<close>

type_synonym mstate = "char option \<times> string \<times> nat \<times> string list"

fun starts_with_ci :: "bool \<Rightarrow> string \<Rightarrow> string \<Rightarrow> bool" where
  "starts_with_ci ic [] s = True"
| "starts_with_ci ic (p # ps) [] = False"
| "starts_with_ci ic (p # ps) (c # cs) =
     ((if ic then lower_char p = lower_char c else p = c) \<and> starts_with_ci ic ps cs)"

fun consume :: "nat \<Rightarrow> mstate \<Rightarrow> mstate" where
  "consume 0 st = st"
| "consume (Suc n) (prev, [], pos, gs) = (prev, [], pos, gs)"
| "consume (Suc n) (prev, c # cs, pos, gs) = consume n (Some c, cs, Suc pos, gs)"

definition one_char :: "(char \<Rightarrow> bool) \<Rightarrow> mstate \<Rightarrow> mstate list" where
  "one_char P st = (case st of (prev, rest, pos, gs) \<Rightarrow>
     (case rest of [] \<Rightarrow> [] | c # cs \<Rightarrow> if P c then [(Some c, cs, Suc pos, gs)] else []))"

definition at_boundary :: "mstate \<Rightarrow> bool" where
  "at_boundary st = (case st of (prev, rest, pos, gs) \<Rightarrow>
     (case prev of None \<Rightarrow> False | Some c \<Rightarrow> is_word c)
       \<noteq> (case rest of [] \<Rightarrow> False | c # cs \<Rightarrow> is_word c))"

definition st_pos :: "mstate \<Rightarrow> nat" where
  "st_pos st = fst (snd (snd st))"

definition close_group :: "mstate \<Rightarrow> mstate \<Rightarrow> mstate" where
  "close_group st st' = (case st of (prev, rest, pos, gs) \<Rightarrow>
     (case st' of (prev', rest', pos', gs') \<Rightarrow>
        (prev', rest', pos', gs' @ [take (pos' - pos) rest])))"

fun dec_bound :: "nat option \<Rightarrow> nat option" where
  "dec_bound None = None"
| "dec_bound (Some n) = Some (n - 1)"

text \<open>
  \<open>rmatch ic r st\<close> lists, in the engine's order of preference, the states in which
  a match of \<open>r\<close> from \<open>st\<close> can end; the engine takes the first that lets the rest of
  the pattern succeed. \<open>ic\<close> is the flag \<open>re.IGNORECASE\<close>. The first argument
  bounds the number of iterations of a repetition: an iteration that consumes nothing is
  not repeated, so the length of the text is enough.
\<close>

fun rmatch :: "nat \<Rightarrow> bool \<Rightarrow> re \<Rightarrow> mstate \<Rightarrow> mstate list" where
  "rmatch f ic (Lit s) st =
     (if starts_with_ci ic s (fst (snd st)) then [consume (length s) st] else [])"
| "rmatch f ic Upper st = one_char (\<lambda>c. is_upper c \<or> (ic \<and> is_lower c)) st"
| "rmatch f ic Lower st = one_char (\<lambda>c. is_lower c \<or> (ic \<and> is_upper c)) st"
| "rmatch f ic Space st = one_char is_space st"
| "rmatch f ic Bnd st = (if at_boundary st then [st] else [])"
| "rmatch f ic (Seq r1 r2) st = concat (map (rmatch f ic r2) (rmatch f ic r1 st))"
| "rmatch f ic (Alt r1 r2) st = rmatch f ic r1 st @ rmatch f ic r2 st"
| "rmatch f ic (Grp r) st = map (close_group st) (rmatch f ic r st)"
| "rmatch 0 ic (Rep r lo hi) st = (if lo = 0 then [st] else [])"
| "rmatch (Suc f) ic (Rep r lo hi) st =
     (if hi = Some 0 then []
      else concat (map (\<lambda>st'. if st_pos st < st_pos st'
                               then rmatch f ic (Rep r (lo - 1) (dec_bound hi)) st' else [])
                       (rmatch (Suc f) ic r st)))
     @ (if lo = 0 then [st] else [])"

record re_match =
  m_start :: nat
  m_end :: nat
  m_groups :: "string list"

definition to_match :: "nat \<Rightarrow> mstate \<Rightarrow> re_match" where
  "to_match start st = (case st of (prev, rest, pos, gs) \<Rightarrow>
     \<lparr>m_start = start, m_end = pos, m_groups = gs\<rparr>)"

text \<open>A compiled pattern: the expression and the flag \<open>re.IGNORECASE\<close>.\<close>

type_synonym pattern = "re \<times> bool"

text \<open>
  \<open>pattern.finditer(text)\<close>: the non-overlapping matches from left to right. At each
  position the first way to match is taken. After an empty match the engine looks at
  the same position for a match that is not empty, and moves on otherwise.
  \<open>scan\<close> walks the text; its first argument counts the characters of the last match
  still to be passed, and \<open>n\<close> is the length of the whole text.
\<close>

definition matches_at :: "nat \<Rightarrow> pattern \<Rightarrow> char option \<Rightarrow> string \<Rightarrow> nat \<Rightarrow> re_match list" where
  "matches_at n p prev rest pos =
     map (to_match pos) (rmatch n (snd p) (fst p) (prev, rest, pos, []))"

definition pick :: "re_match list \<Rightarrow> re_match list" where
  "pick ms = (case ms of [] \<Rightarrow> []
     | m # _ \<Rightarrow> if m_start m < m_end m then [m]
                else m # take 1 (filter (\<lambda>m'. m_start m' < m_end m') ms))"

definition match_len :: "re_match list \<Rightarrow> nat" where
  "match_len ms = (case rev ms of [] \<Rightarrow> 0 | m # _ \<Rightarrow> m_end m - m_start m)"

fun scan :: "nat \<Rightarrow> nat \<Rightarrow> pattern \<Rightarrow> char option \<Rightarrow> string \<Rightarrow> nat \<Rightarrow> re_match list" where
  "scan (Suc k) n p prev [] pos = []"
| "scan (Suc k) n p prev (c # cs) pos = scan k n p (Some c) cs (Suc pos)"
| "scan 0 n p prev [] pos = take 1 (matches_at n p prev [] pos)"
| "scan 0 n p prev (c # cs) pos =
     (let found = pick (matches_at n p prev (c # cs) pos)
      in found @ scan (match_len found - 1) n p (Some c) cs (Suc pos))"

definition finditer :: "pattern \<Rightarrow> string \<Rightarrow> re_match list" where
  "finditer p text = scan 0 (length text) p None text 0"

text \<open>\<open>match.group(0)\<close>.\<close>

definition group0 :: "string \<Rightarrow> re_match \<Rightarrow> string" where
  "group0 text m = py_slice text (m_start m) (m_end m)"

text \<open>\<open>re.findall(pattern, text)\<close> for a pattern with exactly one group: the text of
  that group in every match.\<close>

definition findall :: "pattern \<Rightarrow> string \<Rightarrow> string list" where
  "findall p text = map (\<lambda>m. concat (take 1 (m_groups m))) (finditer p text)"

fun seqs :: "re list \<Rightarrow> re" where
  "seqs [] = Lit []"
| "seqs [r] = r"
| "seqs (r # q # rs) = Seq r (seqs (q # rs))"

fun alts :: "re list \<Rightarrow> re" where
  "alts [] = Lit []"
| "alts [r] = r"
| "alts (r # q # rs) = Alt r (alts (q # rs))"

section \<open>Module constants\<close>

definition ticker_shape :: re where
  "ticker_shape = Rep Upper 1 (Some 5)"

text \<open>\<open>TICKER_PATTERNS\<close>: \<open>\b([A-Z]{1,5})\b\<close> and \<open>\$([A-Z]{1,5})\b\<close>.\<close>

definition TICKER_PATTERNS :: "pattern list" where
  "TICKER_PATTERNS =
     [(seqs [Bnd, Grp ticker_shape, Bnd], False),
      (seqs [Lit ''$'', Grp ticker_shape, Bnd], False)]"

definition TICKER_BLACKLIST :: "string set" where
  "TICKER_BLACKLIST = set [
     ''THE'', ''AND'', ''FOR'', ''ARE'', ''BUT'', ''NOT'', ''YOU'', ''ALL'', ''CAN'', ''HER'',
     ''WAS'', ''ONE'', ''OUR'', ''HAD'', ''DAY'', ''GET'', ''USE'', ''MAN'', ''NEW'', ''NOW'',
     ''OLD'', ''SEE'', ''HIM'', ''TWO'', ''HOW'', ''ITS'', ''WHO'', ''OIL'', ''SIT'', ''SET'',
     ''USA'', ''CEO'', ''CFO'', ''CTO'', ''IPO'', ''SEC'', ''FDA'', ''FBI'', ''CIA'', ''NSA'']"

text \<open>
  \<open>extract_tickers_from_text(text)\<close>. The source returns \<open>list(set(tickers))\<close>,
  whose order Python does not fix; the model keeps each ticker once, in the order of
  its first match.
\<close>

fun uniq :: "'a list \<Rightarrow> 'a list" where
  "uniq [] = []"
| "uniq (x # xs) = x # uniq (filter (\<lambda>y. y \<noteq> x) xs)"

definition extract_tickers_from_text :: "string \<Rightarrow> string list" where
  "extract_tickers_from_text text =
     uniq (concat (map (\<lambda>p. filter (\<lambda>t. t \<notin> TICKER_BLACKLIST) (findall p (py_upper text)))
                       TICKER_PATTERNS))"

section \<open>Confidence scoring\<close>

definition financial_indicators :: "string list" where
  "financial_indicators = [''stock'', ''shares'', ''trading'', ''market'', ''price'',
     ''earnings'', ''revenue'', ''investor'', ''analyst'', ''upgrade'', ''downgrade'']"

definition common_words :: "string list" where
  "common_words = [''THE'', ''AND'', ''FOR'', ''ARE'', ''BUT'', ''NOT'', ''YOU'', ''ALL'',
     ''CAN'', ''HER'', ''WAS'', ''ONE'', ''OUR'', ''HAD'', ''BUT'', ''SAID'']"

text \<open>\<open>_calculate_pattern_confidence\<close>: the base 0.5, one tenth for each financial
  indicator in the lower-cased context, 0.2 when the ticker occurs with a dollar sign,
  \<open>min(mention_count * 0.05, 0.2)\<close> for the occurrences of the ticker in the full
  text, a tenth of the sum for a common word, and the cap at 1.\<close>

definition indicator_bonus :: "string list \<Rightarrow> string \<Rightarrow> real" where
  "indicator_bonus terms s = real (length (filter (\<lambda>t. py_in t s) terms)) * (1 / 10)"

definition calculate_pattern_confidence :: "string \<Rightarrow> string \<Rightarrow> string \<Rightarrow> real" where
  "calculate_pattern_confidence ticker context full_text =
     (let confidence = 5 / 10;
          context_lower = py_lower context;
          confidence = confidence + indicator_bonus financial_indicators context_lower;
          confidence = (if py_in (CHR ''$'' # ticker) full_text
                        then confidence + 2 / 10 else confidence);
          mention_count = py_count full_text ticker;
          confidence = confidence + min (real mention_count * (5 / 100)) (2 / 10);
          confidence = (if ticker \<in> set common_words then confidence * (1 / 10)
                        else confidence)
      in min confidence 1)"

definition financial_terms :: "string list" where
  "financial_terms = [''stock'', ''shares'', ''ticker'', ''symbol'', ''trades'', ''listed'',
     ''nasdaq'', ''nyse'']"

text \<open>\<open>_calculate_contextual_confidence\<close>: the base 0.7, 0.2 when the matched text
  has both parentheses, one tenth for each financial term in the lower-cased matched
  text, and the cap at 1. The source does not read \<open>ticker\<close> and \<open>context\<close>.\<close>

definition calculate_contextual_confidence :: "string \<Rightarrow> string \<Rightarrow> string \<Rightarrow> real" where
  "calculate_contextual_confidence ticker context matched_text =
     (let confidence = 7 / 10;
          confidence = (if CHR ''('' \<in> set matched_text \<and> CHR '')'' \<in> set matched_text
                        then confidence + 2 / 10 else confidence);
          confidence = confidence + indicator_bonus financial_terms (py_lower matched_text)
      in min confidence 1)"

section \<open>Data model\<close>

datatype py_error =
    TypeError | AttributeError | JSONDecodeError | IndexError | ConstraintException | QueryError

text \<open>\<open>TickerMatch\<close>, the dataclass of the source.\<close>

record TickerMatch =
  symbol :: string
  company_name :: string
  positions :: "(nat \<times> nat) list"
  context_snippets :: "string list"
  confidence :: real
  match_method :: string

text \<open>A value that \<open>json.loads\<close> returns: \<open>None\<close>, a truth value, a number, a
  string, a list, or a dictionary with its keys in order.\<close>

datatype json =
    JNull
  | JBool bool
  | JNum real
  | JStr string
  | JList "json list"
  | JObj "(string \<times> json) list"

text \<open>
  The \<open>aliases\<close> cell of a row of \<open>ticker_symbols\<close>, by what the loader's expression
  \<open>json.loads(cell) if pd.notna(cell) and cell else []\<close> does with it: a cell that is
  null or the empty string is not parsed, a cell whose text is JSON parses to a value
  of any shape, and on any other text \<open>json.loads\<close> raises.
\<close>

datatype aliases_cell = NoAliases | Parsed json | Unparseable

text \<open>A row of the table \<open>ticker_symbols\<close> (the column \<open>created_at\<close> is left out).\<close>

record ticker_row =
  row_id :: int
  row_symbol :: string
  row_company_name :: "string option"
  row_aliases :: aliases_cell
  row_sector :: "string option"
  row_market_cap :: "string option"
  row_is_active :: bool

text \<open>The dictionary the loader builds for each row.\<close>

record symbol_obj =
  obj_id :: "int option"
  obj_symbol :: string
  obj_company_name :: "string option"
  obj_aliases :: json
  obj_sector :: "string option"

text \<open>
  \<open>TickerTagger\<close>. A Python dictionary keeps its keys in the order of their first
  insertion, and the compiled patterns depend on that order, so each dictionary is an
  association list: \<open>AList.update\<close> overwrites in place or appends, \<open>map_of\<close> looks up.
\<close>

record TickerTagger =
  symbol_dict :: "(string \<times> symbol_obj) list"
  company_name_dict :: "(string \<times> symbol_obj) list"
  alias_dict :: "(string \<times> symbol_obj) list"
  known_symbols_pattern :: "pattern option"
  company_names_pattern :: "pattern option"

section \<open>Reference set loader\<close>

definition parse_aliases :: "aliases_cell \<Rightarrow> py_error + json" where
  "parse_aliases cell = (case cell of
       NoAliases \<Rightarrow> Inr (JList [])
     | Parsed v \<Rightarrow> Inr v
     | Unparseable \<Rightarrow> Inl JSONDecodeError)"

definition make_symbol_obj :: "ticker_row \<Rightarrow> json \<Rightarrow> symbol_obj" where
  "make_symbol_obj row aliases =
     \<lparr>obj_id = Some (row_id row), obj_symbol = row_symbol row,
      obj_company_name = row_company_name row, obj_aliases = aliases,
      obj_sector = row_sector row\<rparr>"

text \<open>The truth value of a parsed value in \<open>if symbol_obj['aliases']:\<close>.\<close>

fun truthy :: "json \<Rightarrow> bool" where
  "truthy JNull = False"
| "truthy (JBool b) = b"
| "truthy (JNum x) = (x \<noteq> 0)"
| "truthy (JStr s) = (s \<noteq> [])"
| "truthy (JList xs) = (xs \<noteq> [])"
| "truthy (JObj kvs) = (kvs \<noteq> [])"

text \<open>\<open>for alias in symbol_obj['aliases']\<close>: a list gives its elements, a string its
  characters, a dictionary its keys; a number or a truth value is not iterable.\<close>

fun py_iter :: "json \<Rightarrow> py_error + json list" where
  "py_iter (JList xs) = Inr xs"
| "py_iter (JStr s) = Inr (map (\<lambda>c. JStr [c]) s)"
| "py_iter (JObj kvs) = Inr (map (\<lambda>kv. JStr (fst kv)) kvs)"
| "py_iter JNull = Inl TypeError"
| "py_iter (JBool b) = Inl TypeError"
| "py_iter (JNum x) = Inl TypeError"

text \<open>\<open>alias.lower()\<close>: only a string has the method.\<close>

fun alias_lower :: "json \<Rightarrow> py_error + string" where
  "alias_lower (JStr s) = Inr (py_lower s)"
| "alias_lower JNull = Inl AttributeError"
| "alias_lower (JBool b) = Inl AttributeError"
| "alias_lower (JNum x) = Inl AttributeError"
| "alias_lower (JList xs) = Inl AttributeError"
| "alias_lower (JObj kvs) = Inl AttributeError"

text \<open>The loop over the aliases: an element that is not a string ends it with an
  exception, after the aliases before it have been stored.\<close>

fun store_aliases :: "TickerTagger \<Rightarrow> symbol_obj \<Rightarrow> json list \<Rightarrow> TickerTagger \<times> py_error option" where
  "store_aliases t obj [] = (t, None)"
| "store_aliases t obj (alias # aliases) =
     (case alias_lower alias of
        Inl e \<Rightarrow> (t, Some e)
      | Inr key \<Rightarrow>
          store_aliases (t\<lparr>alias_dict := AList.update key obj (alias_dict t)\<rparr>) obj aliases)"

text \<open>The body of the loop of \<open>_load_ticker_data\<close> once the row's dictionary is
  built: the entry by symbol, the entry by lower-cased company name, then the entries by
  lower-cased alias. The second component is the exception raised, if any.\<close>

definition store_symbol :: "TickerTagger \<Rightarrow> symbol_obj \<Rightarrow> TickerTagger \<times> py_error option" where
  "store_symbol t obj =
     (let t = t\<lparr>symbol_dict := AList.update (obj_symbol obj) obj (symbol_dict t)\<rparr>;
          t = (case obj_company_name obj of
                 None \<Rightarrow> t
               | Some n \<Rightarrow> if n = [] then t
                           else t\<lparr>company_name_dict :=
                                    AList.update (py_lower n) obj (company_name_dict t)\<rparr>)
      in if truthy (obj_aliases obj)
         then (case py_iter (obj_aliases obj) of
                 Inl e \<Rightarrow> (t, Some e)
               | Inr aliases \<Rightarrow> store_aliases t obj aliases)
         else (t, None))"

text \<open>One pass of the loop for a row: the row's dictionary is built first, and a cell
  that does not parse raises before anything is stored.\<close>

definition load_row :: "TickerTagger \<Rightarrow> ticker_row \<Rightarrow> TickerTagger \<times> py_error option" where
  "load_row t row = (case parse_aliases (row_aliases row) of
       Inl e \<Rightarrow> (t, Some e)
     | Inr aliases \<Rightarrow> store_symbol t (make_symbol_obj row aliases))"

text \<open>The loop over the rows. It runs inside one \<open>try\<close>: the first exception ends it,
  and the dictionaries keep what had been stored until then.\<close>

fun load_rows :: "TickerTagger \<Rightarrow> ticker_row list \<Rightarrow> TickerTagger \<times> py_error option" where
  "load_rows t [] = (t, None)"
| "load_rows t (row # rows) =
     (case load_row t row of
        (t', Some e) \<Rightarrow> (t', Some e)
      | (t', None) \<Rightarrow> load_rows t' rows)"

text \<open>\<open>_load_ticker_data\<close>, given the outcome of the query for the active rows. The
  second component is the exception the \<open>except\<close> clause logs as a warning, if any.\<close>

definition load_ticker_data ::
  "TickerTagger \<Rightarrow> py_error + ticker_row list \<Rightarrow> TickerTagger \<times> py_error option" where
  "load_ticker_data t symbols_df = (case symbols_df of
       Inl e \<Rightarrow> (t, Some e)
     | Inr rows \<Rightarrow> load_rows t rows)"

text \<open>The exception that the pass for a row raises, if any; it does not depend on
  the dictionaries.\<close>

definition row_error :: "ticker_row \<Rightarrow> py_error option" where
  "row_error row = snd (load_row \<lparr>symbol_dict = [], company_name_dict = [], alias_dict = [],
     known_symbols_pattern = None, company_names_pattern = None\<rparr> row)"

section \<open>Pattern compiler\<close>

definition special_chars :: string where
  "special_chars = ''()[]{}?*+-|^$'' @ [CHR 0x5C] @ ''.&~# ''
     @ map char_of [9, 10, 13, 11, 12 :: nat]"

text \<open>\<open>re.escape\<close>: a backslash before every special character.\<close>

definition re_escape :: "string \<Rightarrow> string" where
  "re_escape s = concat (map (\<lambda>c. if c \<in> set special_chars then [CHR 0x5C, c] else [c]) s)"

text \<open>\<open>xs.sort(key=len, reverse=True)\<close> on escaped strings; the sort is stable. The
  model sorts the strings themselves by the length of their escaped form.\<close>

definition longest_first :: "string list \<Rightarrow> string list" where
  "longest_first xs = sort_key (\<lambda>s. - int (length (re_escape s))) xs"

text \<open>\<open>\b(\<close>\<open>s1|s2|...\<close>\<open>)\b\<close> with \<open>re.IGNORECASE\<close>.\<close>

definition word_alternation :: "string list \<Rightarrow> pattern" where
  "word_alternation xs = (seqs [Bnd, Grp (alts (map Lit xs)), Bnd], True)"

definition compile_patterns :: "TickerTagger \<Rightarrow> TickerTagger" where
  "compile_patterns t =
     (let symbols = map fst (symbol_dict t);
          t = t\<lparr>known_symbols_pattern :=
                  (if symbols \<noteq> [] then Some (word_alternation (longest_first symbols))
                   else None)\<rparr>;
          company_names = map fst (company_name_dict t);
          escaped_names = longest_first (filter (\<lambda>name. 3 < length name) company_names)
      in t\<lparr>company_names_pattern :=
             (if company_names \<noteq> [] \<and> escaped_names \<noteq> []
              then Some (word_alternation escaped_names) else None)\<rparr>)"

definition empty_tagger :: TickerTagger where
  "empty_tagger = \<lparr>symbol_dict = [], company_name_dict = [], alias_dict = [],
     known_symbols_pattern = None, company_names_pattern = None\<rparr>"

text \<open>\<open>TickerTagger.__init__\<close>.\<close>

definition init_tagger :: "py_error + ticker_row list \<Rightarrow> TickerTagger" where
  "init_tagger symbols_df = compile_patterns (fst (load_ticker_data empty_tagger symbols_df))"

section \<open>Matchers\<close>

text \<open>\<open>_extract_context\<close>: the window around a match, stripped, its white space
  normalised.\<close>

definition extract_context :: "string \<Rightarrow> nat \<Rightarrow> nat \<Rightarrow> nat \<Rightarrow> string" where
  "extract_context text start end window =
     (let context_start = start - window;
          context_end = min (length text) (end + window);
          context = py_strip (py_slice text context_start context_end)
      in py_join '' '' (py_split context))"

text \<open>\<open>match.group(1)\<close> and \<open>match.groups()[-1]\<close>; every pattern of the source has a
  group that takes part in each of its matches.\<close>

definition group1 :: "re_match \<Rightarrow> string" where
  "group1 m = (case m_groups m of [] \<Rightarrow> [] | g # _ \<Rightarrow> g)"

definition last_group :: "re_match \<Rightarrow> string" where
  "last_group m = (case rev (m_groups m) of [] \<Rightarrow> [] | g # _ \<Rightarrow> g)"

text \<open>\<open>ticker_obj.get('company_name', '') or ""\<close>.\<close>

definition name_or_empty :: "symbol_obj \<Rightarrow> string" where
  "name_or_empty obj = (case obj_company_name obj of None \<Rightarrow> [] | Some n \<Rightarrow> n)"

text \<open>The body of the loop of \<open>_match_known_symbols\<close> for one match: nothing for a
  blacklisted symbol or one the dictionary does not hold, a mention otherwise.\<close>

definition known_symbol_hit :: "TickerTagger \<Rightarrow> string \<Rightarrow> re_match \<Rightarrow> TickerMatch list" where
  "known_symbol_hit t text m =
     (let smb = py_upper (group1 m)
      in if smb \<in> TICKER_BLACKLIST then []
         else (case map_of (symbol_dict t) smb of
                 None \<Rightarrow> []
               | Some ticker_obj \<Rightarrow>
                   [\<lparr>symbol = smb, company_name = name_or_empty ticker_obj,
                     positions = [(m_start m, m_end m)],
                     context_snippets = [extract_context text (m_start m) (m_end m) 50],
                     confidence = 9 / 10, match_method = ''known_symbol''\<rparr>]))"

definition match_known_symbols :: "TickerTagger \<Rightarrow> string \<Rightarrow> TickerMatch list" where
  "match_known_symbols t text = (case known_symbols_pattern t of
       None \<Rightarrow> []
     | Some p \<Rightarrow> concat (map (known_symbol_hit t text) (finditer p text)))"

text \<open>The body of the loop of \<open>_match_company_names\<close>: the matched name, lower-cased,
  is looked up among the company names, then among the aliases.\<close>

definition company_name_hit :: "TickerTagger \<Rightarrow> string \<Rightarrow> re_match \<Rightarrow> TickerMatch list" where
  "company_name_hit t text m =
     (let name = py_lower (group1 m);
          ticker_obj = (case map_of (company_name_dict t) name of
                          None \<Rightarrow> map_of (alias_dict t) name
                        | Some obj \<Rightarrow> Some obj)
      in case ticker_obj of
           None \<Rightarrow> []
         | Some obj \<Rightarrow>
             [\<lparr>symbol = obj_symbol obj, company_name = name_or_empty obj,
               positions = [(m_start m, m_end m)],
               context_snippets = [extract_context text (m_start m) (m_end m) 50],
               confidence = 8 / 10, match_method = ''company_name''\<rparr>])"

definition match_company_names :: "TickerTagger \<Rightarrow> string \<Rightarrow> TickerMatch list" where
  "match_company_names t text = (case company_names_pattern t of
       None \<Rightarrow> []
     | Some p \<Rightarrow> concat (map (company_name_hit t text) (finditer p text)))"

text \<open>
  \<open>_match_ticker_patterns\<close> calls \<open>extract_tickers_from_text(text,
  use_whitelist=False)\<close>, and the function is declared with the one parameter
  \<open>text\<close>. Python raises \<open>TypeError\<close> for a keyword argument that the signature
  does not declare. \<open>call_extract_tickers_from_text\<close> is the call, given the names of
  the keyword arguments passed.
\<close>

definition call_extract_tickers_from_text :: "string \<Rightarrow> string list \<Rightarrow> py_error + string list" where
  "call_extract_tickers_from_text text keywords =
     (if keywords = [] then Inr (extract_tickers_from_text text) else Inl TypeError)"

text \<open>\<open>\bTICKER\b\<close>, case-sensitive.\<close>

definition word_pattern :: "string \<Rightarrow> pattern" where
  "word_pattern ticker = (seqs [Bnd, Lit ticker, Bnd], False)"

definition pattern_hit :: "string \<Rightarrow> string \<Rightarrow> re_match \<Rightarrow> TickerMatch list" where
  "pattern_hit text ticker m =
     (let context = extract_context text (m_start m) (m_end m) 50;
          conf = calculate_pattern_confidence ticker context text
      in if 3 / 10 < conf
         then [\<lparr>symbol = ticker, company_name = [],
                positions = [(m_start m, m_end m)], context_snippets = [context],
                confidence = conf, match_method = ''pattern_match''\<rparr>]
         else [])"

definition match_ticker_patterns :: "TickerTagger \<Rightarrow> string \<Rightarrow> py_error + TickerMatch list" where
  "match_ticker_patterns t text =
     (case call_extract_tickers_from_text text [''use_whitelist''] of
        Inl e \<Rightarrow> Inl e
      | Inr potential_tickers \<Rightarrow>
          Inr (concat (map (\<lambda>ticker.
                 if map_of (symbol_dict t) ticker \<noteq> None then []
                 else concat (map (pattern_hit text ticker)
                                  (finditer (word_pattern ticker) text)))
               potential_tickers)))"

text \<open>
  The five templates of \<open>_match_contextual_tickers\<close>:
  \<^item> \<open>([A-Z][a-z]+(?:\s+[A-Z][a-z]+)*)\s*\(\s*([A-Z]{1,5})\s*\)\<close>;
  \<^item> \<open>\b([A-Z]{1,5})\s+(?:stock|shares|equity)\<close>, ignoring case;
  \<^item> \<open>(?:trades|trading|listed)\s+as\s+([A-Z]{1,5})\<close>, ignoring case;
  \<^item> \<open>ticker\s+(?:symbol\s+)?([A-Z]{1,5})\<close>, ignoring case;
  \<^item> \<open>\$([A-Z]{1,5})\b\<close>.
\<close>

definition capitalised :: re where
  "capitalised = Seq Upper (Rep Lower 1 None)"

definition spaces :: re where
  "spaces = Rep Space 1 None"

definition opt_spaces :: re where
  "opt_spaces = Rep Space 0 None"

definition contextual_patterns :: "pattern list" where
  "contextual_patterns =
     [(seqs [Grp (Seq capitalised (Rep (Seq spaces capitalised) 0 None)),
             opt_spaces, Lit ''('', opt_spaces, Grp ticker_shape, opt_spaces, Lit '')''], False),
      (seqs [Bnd, Grp ticker_shape, spaces,
             alts [Lit ''stock'', Lit ''shares'', Lit ''equity'']], True),
      (seqs [alts [Lit ''trades'', Lit ''trading'', Lit ''listed''], spaces, Lit ''as'',
             spaces, Grp ticker_shape], True),
      (seqs [Lit ''ticker'', spaces, Rep (Seq (Lit ''symbol'') spaces) 0 (Some 1),
             Grp ticker_shape], True),
      (seqs [Lit ''$'', Grp ticker_shape, Bnd], False)]"

text \<open>The mention the loop of \<open>_match_contextual_tickers\<close> builds for a match, and the
  body of the loop: the blacklist check, then the threshold on the confidence.\<close>

definition contextual_mention :: "string \<Rightarrow> re_match \<Rightarrow> TickerMatch" where
  "contextual_mention text m =
     (let groups = m_groups m;
          ticker = py_upper (last_group m);
          context = extract_context text (m_start m) (m_end m) 100
      in \<lparr>symbol = ticker,
          company_name = (if 1 < length groups \<and> group1 m \<noteq> [] then group1 m else []),
          positions = [(m_start m, m_end m)], context_snippets = [context],
          confidence = calculate_contextual_confidence ticker context (group0 text m),
          match_method = ''contextual_match''\<rparr>)"

definition contextual_hit :: "string \<Rightarrow> re_match \<Rightarrow> TickerMatch list" where
  "contextual_hit text m =
     (if py_upper (last_group m) \<in> TICKER_BLACKLIST then []
      else if 5 / 10 < confidence (contextual_mention text m) then [contextual_mention text m]
      else [])"

definition match_contextual_tickers :: "string \<Rightarrow> TickerMatch list" where
  "match_contextual_tickers text =
     concat (map (\<lambda>p. concat (map (contextual_hit text) (finditer p text)))
                 contextual_patterns)"

section \<open>Merging the mentions of a symbol\<close>

text \<open>Python's \<open>max(xs, key=f)\<close> returns the first element with the greatest key.\<close>

fun max_by :: "('a \<Rightarrow> nat) \<Rightarrow> 'a \<Rightarrow> 'a list \<Rightarrow> 'a" where
  "max_by key best [] = best"
| "max_by key best (x # xs) = max_by key (if key best < key x then x else best) xs"

definition method_rank :: "string \<Rightarrow> nat" where
  "method_rank m =
     (if m = ''known_symbol'' then 4 else if m = ''company_name'' then 3
      else if m = ''contextual_match'' then 2 else if m = ''pattern_match'' then 1 else 0)"

text \<open>The confidence of a group, from the confidences of its mentions and the number
  of their positions.\<close>

definition final_confidence :: "real list \<Rightarrow> nat \<Rightarrow> real" where
  "final_confidence confidences mention_count =
     (let final = Max (set confidences) * (7 / 10)
                  + (sum_list confidences / real (length confidences)) * (3 / 10)
      in if 1 < mention_count then min (final * (1 + real mention_count * (5 / 100))) 1
         else final)"

text \<open>The result for one symbol; the source skips a symbol whose list is empty.\<close>

fun merge_group :: "string \<Rightarrow> TickerMatch list \<Rightarrow> TickerMatch list" where
  "merge_group smb [] = []"
| "merge_group smb (m # ms) =
     (let match_list = m # ms;
          all_positions = concat (map positions match_list);
          all_contexts = concat (map context_snippets match_list);
          company_names = filter (\<lambda>n. n \<noteq> []) (map company_name match_list)
      in [\<lparr>symbol = smb,
           company_name = (case company_names of [] \<Rightarrow> [] | n # ns \<Rightarrow> max_by length n ns),
           positions = all_positions,
           context_snippets = take 5 all_contexts,
           confidence = final_confidence (map confidence match_list) (length all_positions),
           match_method = max_by method_rank (match_method m) (map match_method ms)\<rparr>])"

text \<open>
  \<open>_deduplicate_and_score\<close>. The groups are taken in the order in which their symbols
  first occur, as the \<open>defaultdict\<close> yields them; the final sort, by confidence with
  \<open>reverse=True\<close>, is stable. The source does not read \<open>text\<close>.
\<close>

definition group_of :: "string \<Rightarrow> TickerMatch list \<Rightarrow> TickerMatch list" where
  "group_of smb matches = filter (\<lambda>m. symbol m = smb) matches"

definition deduplicate_and_score :: "TickerMatch list \<Rightarrow> string \<Rightarrow> TickerMatch list" where
  "deduplicate_and_score matches text =
     sort_key (\<lambda>m. - confidence m)
       (concat (map (\<lambda>smb. merge_group smb (group_of smb matches))
                    (uniq (map symbol matches))))"

section \<open>Tagging\<close>

definition full_text :: "string \<Rightarrow> string \<Rightarrow> string" where
  "full_text title text = (if title \<noteq> [] then title @ '' '' @ text else text)"

text \<open>\<open>tag_article_text\<close> (the source does not read \<open>article_id\<close>). The four matchers
  run in the order of the source; an exception of the third leaves the function.\<close>

definition tag_article_text :: "TickerTagger \<Rightarrow> string \<Rightarrow> string \<Rightarrow> py_error + TickerMatch list" where
  "tag_article_text t title text =
     (let full = full_text title text
      in if py_strip full = [] then Inr []
         else (let known_matches = match_known_symbols t full;
                   company_matches = match_company_names t full
               in case match_ticker_patterns t full of
                    Inl e \<Rightarrow> Inl e
                  | Inr pattern_matches \<Rightarrow>
                      Inr (deduplicate_and_score
                             (known_matches @ company_matches @ pattern_matches
                                @ match_contextual_tickers full) full)))"

section \<open>Persistence\<close>

text \<open>
  The two tables the tagger writes, as \<open>create_tables\<close> declares them (\<open>created_at\<close>
  left out): in both, \<open>id\<close> is the primary key, and \<open>ticker_symbols.symbol\<close> is
  unique. The table of associations has no other constraint.
\<close>

record association_row =
  assoc_id :: int
  assoc_article_id :: int
  assoc_ticker_id :: int
  assoc_confidence :: real
  assoc_match_method :: string
  assoc_context_snippet :: string

record database =
  ticker_symbols :: "ticker_row list"
  article_ticker_associations :: "association_row list"

text \<open>The query for the active rows, which the loader reads.\<close>

definition select_active :: "database \<Rightarrow> py_error + ticker_row list" where
  "select_active db = Inr (filter row_is_active (ticker_symbols db))"

text \<open>
  \<open>insert_dataframe(df, table, mode='append')\<close> runs one \<open>INSERT INTO table SELECT *\<close>.
  The statement adds all the rows, or, when a key would occur twice, raises and adds
  none.
\<close>

definition insert_ticker_symbols :: "database \<Rightarrow> ticker_row list \<Rightarrow> py_error + database" where
  "insert_ticker_symbols db rows =
     (let table = ticker_symbols db @ rows
      in if distinct (map row_id table) \<and> distinct (map row_symbol table)
         then Inr (db\<lparr>ticker_symbols := table\<rparr>)
         else Inl ConstraintException)"

definition insert_associations :: "database \<Rightarrow> association_row list \<Rightarrow> py_error + database" where
  "insert_associations db rows =
     (let table = article_ticker_associations db @ rows
      in if distinct (map assoc_id table)
         then Inr (db\<lparr>article_ticker_associations := table\<rparr>)
         else Inl ConstraintException)"

text \<open>\<open>SELECT id FROM ticker_symbols WHERE symbol = ?\<close>.\<close>

definition select_ticker_id :: "database \<Rightarrow> string \<Rightarrow> int list" where
  "select_ticker_id db s = map row_id (filter (\<lambda>r. row_symbol r = s) (ticker_symbols db))"

text \<open>\<open>SELECT COALESCE(MAX(id), 0) + 1 FROM ticker_symbols\<close>.\<close>

definition next_ticker_id :: "database \<Rightarrow> int" where
  "next_ticker_id db = (case map row_id (ticker_symbols db) of
       [] \<Rightarrow> 0
     | i # ids \<Rightarrow> fold max ids i) + 1"

definition new_ticker_row :: "int \<Rightarrow> TickerMatch \<Rightarrow> ticker_row" where
  "new_ticker_row next_id m =
     \<lparr>row_id = next_id, row_symbol = symbol m,
      row_company_name = (if company_name m \<noteq> [] then Some (company_name m) else None),
      row_aliases = Parsed (JList []), row_sector = None, row_market_cap = None,
      row_is_active = True\<rparr>"

text \<open>The first part of the loop body of \<open>persist_ticker_associations\<close>: the id of the
  ticker, after creating its row when the table has none.\<close>

definition get_or_create_ticker :: "database \<Rightarrow> TickerMatch \<Rightarrow> py_error + (database \<times> int)" where
  "get_or_create_ticker db m =
     (case select_ticker_id db (symbol m) of
        i # _ \<Rightarrow> Inr (db, i)
      | [] \<Rightarrow>
          (case insert_ticker_symbols db [new_ticker_row (next_ticker_id db) m] of
             Inl e \<Rightarrow> Inl e
           | Inr db' \<Rightarrow>
               (case select_ticker_id db' (symbol m) of
                  [] \<Rightarrow> Inl IndexError
                | i # _ \<Rightarrow> Inr (db', i))))"

definition new_association :: "nat \<Rightarrow> int \<Rightarrow> int \<Rightarrow> TickerMatch \<Rightarrow> association_row" where
  "new_association n article_id ticker_id m =
     \<lparr>assoc_id = int n + 1, assoc_article_id = article_id, assoc_ticker_id = ticker_id,
      assoc_confidence = confidence m, assoc_match_method = match_method m,
      assoc_context_snippet = (case context_snippets m of [] \<Rightarrow> [] | c # _ \<Rightarrow> c)\<rparr>"

text \<open>The loop: the database and \<open>associations_data\<close> so far, then the matches left.
  An exception ends it; the rows of \<open>ticker_symbols\<close> written before stay.\<close>

fun collect_associations ::
  "database \<Rightarrow> int \<Rightarrow> association_row list \<Rightarrow> TickerMatch list
     \<Rightarrow> py_error option \<times> database \<times> association_row list" where
  "collect_associations db article_id associations_data [] = (None, db, associations_data)"
| "collect_associations db article_id associations_data (m # ms) =
     (case get_or_create_ticker db m of
        Inl e \<Rightarrow> (Some e, db, associations_data)
      | Inr (db', ticker_id) \<Rightarrow>
          collect_associations db' article_id
            (associations_data
               @ [new_association (length associations_data) article_id ticker_id m]) ms)"

text \<open>\<open>persist_ticker_associations\<close>: the exception raised, if any, and the database
  after the call.\<close>

definition persist_ticker_associations ::
  "database \<Rightarrow> int \<Rightarrow> TickerMatch list \<Rightarrow> py_error option \<times> database" where
  "persist_ticker_associations db article_id ticker_matches =
     (if ticker_matches = [] then (None, db)
      else (case collect_associations db article_id [] ticker_matches of
              (Some e, db', associations_data) \<Rightarrow> (Some e, db')
            | (None, db', associations_data) \<Rightarrow>
                if associations_data = [] then (None, db')
                else (case insert_associations db' associations_data of
                        Inl e \<Rightarrow> (Some e, db')
                      | Inr db'' \<Rightarrow> (None, db''))))"

text \<open>The rows that associate an article with a symbol.\<close>

definition associations_of :: "database \<Rightarrow> int \<Rightarrow> string \<Rightarrow> association_row list" where
  "associations_of db article_id s =
     filter (\<lambda>a. assoc_article_id a = article_id
                  \<and> assoc_ticker_id a \<in> set (select_ticker_id db s))
            (article_ticker_associations db)"

section \<open>Example inputs\<close>

definition aapl_row :: ticker_row where
  "aapl_row = \<lparr>row_id = 1, row_symbol = ''AAPL'', row_company_name = Some ''Apple Inc'',
     row_aliases = Parsed (JList [JStr ''Apple'']), row_sector = Some ''Technology'',
     row_market_cap = Some ''large'', row_is_active = True\<rparr>"

definition msft_row :: ticker_row where
  "msft_row = \<lparr>row_id = 2, row_symbol = ''MSFT'',
     row_company_name = Some ''Microsoft Corporation'', row_aliases = Unparseable,
     row_sector = Some ''Technology'', row_market_cap = Some ''large'',
     row_is_active = True\<rparr>"

definition tsla_row :: ticker_row where
  "tsla_row = \<lparr>row_id = 3, row_symbol = ''TSLA'', row_company_name = Some ''Tesla Inc'',
     row_aliases = NoAliases, row_sector = None, row_market_cap = None,
     row_is_active = True\<rparr>"

definition nvda_row :: ticker_row where
  "nvda_row = \<lparr>row_id = 4, row_symbol = ''NVDA'',
     row_company_name = Some ''Nvidia Corporation'',
     row_aliases = Parsed (JList [JStr ''Nvidia'', JNum 2]), row_sector = None,
     row_market_cap = None, row_is_active = True\<rparr>"

definition meta_row :: ticker_row where
  "meta_row = \<lparr>row_id = 5, row_symbol = ''META'',
     row_company_name = Some ''Meta Platforms'', row_aliases = Parsed (JStr ''Fb''),
     row_sector = None, row_market_cap = None, row_is_active = True\<rparr>"

definition allstate_row :: ticker_row where
  "allstate_row = \<lparr>row_id = 1, row_symbol = ''ALL'',
     row_company_name = Some ''Allstate Corporation'', row_aliases = Parsed (JList []),
     row_sector = Some ''Financials'', row_market_cap = Some ''large'',
     row_is_active = True\<rparr>"

definition aapl_result :: TickerMatch where
  "aapl_result = \<lparr>symbol = ''AAPL'', company_name = ''Apple Inc'', positions = [(0, 4)],
     context_snippets = [''AAPL rallied''], confidence = 9 / 10,
     match_method = ''known_symbol''\<rparr>"

definition one_ticker_db :: database where
  "one_ticker_db = \<lparr>ticker_symbols = [aapl_row], article_ticker_associations = []\<rparr>"

definition known_mention :: TickerMatch where
  "known_mention = \<lparr>symbol = ''AAPL'', company_name = ''Apple Inc'', positions = [(1, 5)],
     context_snippets = [''$AAPL rallied''], confidence = 9 / 10,
     match_method = ''known_symbol''\<rparr>"

definition dollar_mention :: TickerMatch where
  "dollar_mention = \<lparr>symbol = ''AAPL'', company_name = [], positions = [(0, 5)],
     context_snippets = [''$AAPL rallied''], confidence = 7 / 10,
     match_method = ''contextual_match''\<rparr>"

section \<open>Mentions the matchers emit\<close>

text \<open>
  Every mention that a matcher builds has one position, and a confidence between 0.55
  and 1: 0.9 for a known symbol, 0.8 for a company name, at least 0.7 for a contextual
  match, and for a pattern match at least 0.5 plus the 0.05 of its own occurrence (a
  common word, scored at a tenth, stays under the threshold 0.3 and is dropped).
\<close>

definition valid_mention :: "TickerMatch \<Rightarrow> bool" where
  "valid_mention m =
     (length (positions m) = 1 \<and> 55 / 100 \<le> confidence m \<and> confidence m \<le> 1)"

section \<open>Properties\<close>

text \<open>
  C8. The claim gives a token that occurs exactly once no repetition bonus: its score
  would start from 0.5. The source adds \<open>min(mention_count * 0.05, 0.2)\<close> with
  \<open>mention_count\<close> the number of all occurrences, so a token that occurs once, with
  no financial term around it and no dollar sign, scores 0.55.
\<close>

theorem pattern_confidence_single_occurrence:
  "calculate_pattern_confidence ''ZYXQ'' ''ZYXQ'' ''ZYXQ'' = 55 / 100"
  by code_simp

subsection \<open>Tagging\<close>

lemma match_ticker_patterns_raises: "match_ticker_patterns t text = Inl TypeError"
  by (simp add: match_ticker_patterns_def call_extract_tickers_from_text_def)

text \<open>
  C2. The claim is that tagging never raises. In the source the pattern matcher passes
  the keyword \<open>use_whitelist\<close> to a function that does not declare it, and nothing
  catches the \<open>TypeError\<close>: for every text that is not blank, \<open>tag_article_text\<close>
  ends with that exception instead of a result.
\<close>

theorem tag_article_text_raises:
  "py_strip (full_text title text) \<noteq> [] \<Longrightarrow> tag_article_text t title text = Inl TypeError"
  by (simp add: tag_article_text_def Let_def match_ticker_patterns_raises)

theorem tag_article_text_raises_witness:
  "py_strip (full_text ''Markets'' ''ZYXQ rallied'') \<noteq> []
   \<and> tag_article_text empty_tagger ''Markets'' ''ZYXQ rallied'' = Inl TypeError"
proof -
  have h: "py_strip (full_text ''Markets'' ''ZYXQ rallied'') \<noteq> []" by code_simp
  show ?thesis using h tag_article_text_raises [OF h, of empty_tagger] by simp
qed

text \<open>
  C9. When the combined text (the title, a blank and the body, or the body alone for an
  empty title) is empty or all white space, \<open>tag_article_text\<close> returns the empty
  list, and no exception.
\<close>

theorem blank_text_gives_no_results:
  "py_strip (full_text title text) = [] \<Longrightarrow> tag_article_text t title text = Inr []"
  by (simp add: tag_article_text_def Let_def)

theorem blank_text_gives_no_results_witness:
  "py_strip (full_text '' '' ''   '') = []
   \<and> tag_article_text (init_tagger (Inr [aapl_row])) '' '' ''   '' = Inr []"
proof -
  have h: "py_strip (full_text '' '' ''   '') = []" by code_simp
  show ?thesis using h blank_text_gives_no_results [OF h] by simp
qed

subsection \<open>The contextual matcher\<close>

lemma indicator_bonus_nonneg: "0 \<le> indicator_bonus terms s"
  by (simp add: indicator_bonus_def)

text \<open>
  C10. The contextual confidence is at least 0.7 (and at most 1) for every ticker,
  context and matched text. So the test \<open>confidence > 0.5\<close> of the contextual matcher
  rejects nothing: every match of a template whose ticker is not blacklisted gives its
  mention in the matcher's output.
\<close>

theorem contextual_confidence_passes_threshold:
  "7 / 10 \<le> calculate_contextual_confidence ticker context matched_text
   \<and> calculate_contextual_confidence ticker context matched_text \<le> 1
   \<and> (\<forall>p \<in> set contextual_patterns. \<forall>m \<in> set (finditer p text).
        py_upper (last_group m) \<notin> TICKER_BLACKLIST
        \<longrightarrow> contextual_mention text m \<in> set (match_contextual_tickers text))"
proof -
  have low: "7 / 10 \<le> calculate_contextual_confidence k c mt" for k c mt
    using indicator_bonus_nonneg [of financial_terms "py_lower mt"]
    by (simp add: calculate_contextual_confidence_def Let_def)
  have kept: "contextual_hit text m = [contextual_mention text m]"
    if "py_upper (last_group m) \<notin> TICKER_BLACKLIST" for m
  proof -
    have "7 / 10 \<le> confidence (contextual_mention text m)"
      using low by (simp add: contextual_mention_def Let_def)
    then have "5 / 10 < confidence (contextual_mention text m)" by simp
    with that show ?thesis by (simp add: contextual_hit_def)
  qed
  have "contextual_mention text m \<in> set (match_contextual_tickers text)"
    if "p \<in> set contextual_patterns" "m \<in> set (finditer p text)"
       "py_upper (last_group m) \<notin> TICKER_BLACKLIST" for p m
  proof -
    have "contextual_mention text m \<in> set (contextual_hit text m)"
      using kept [OF that(3)] by simp
    with that(1,2) show ?thesis
      unfolding match_contextual_tickers_def by auto
  qed
  moreover have "calculate_contextual_confidence ticker context matched_text \<le> 1"
    by (simp add: calculate_contextual_confidence_def Let_def)
  ultimately show ?thesis using low by blast
qed

theorem contextual_confidence_passes_threshold_witness:
  "contextual_patterns ! 2 \<in> set contextual_patterns
   \<and> \<lparr>m_start = 0, m_end = 14, m_groups = [''ZYXQ'']\<rparr>
        \<in> set (finditer (contextual_patterns ! 2) ''trades as ZYXQ on NASDAQ'')
   \<and> py_upper (last_group \<lparr>m_start = 0, m_end = 14, m_groups = [''ZYXQ'']\<rparr>)
        \<notin> TICKER_BLACKLIST
   \<and> contextual_mention ''trades as ZYXQ on NASDAQ''
          \<lparr>m_start = 0, m_end = 14, m_groups = [''ZYXQ'']\<rparr>
        \<in> set (match_contextual_tickers ''trades as ZYXQ on NASDAQ'')"
proof -
  let ?m = "\<lparr>m_start = 0, m_end = 14, m_groups = [''ZYXQ'']\<rparr>"
  let ?T = "''trades as ZYXQ on NASDAQ''"
  have a: "contextual_patterns ! 2 \<in> set contextual_patterns" by code_simp
  have b: "?m \<in> set (finditer (contextual_patterns ! 2) ?T)" by code_simp
  have c: "py_upper (last_group ?m) \<notin> TICKER_BLACKLIST" by code_simp
  from contextual_confidence_passes_threshold [of "[]" "[]" "[]" ?T] a b c
  have "contextual_mention ?T ?m \<in> set (match_contextual_tickers ?T)" by blast
  with a b c show ?thesis by blast
qed

subsection \<open>Persistence\<close>

text \<open>
  C1. The claim is that persisting the same results twice leaves one association for
  each document and symbol, the second call being ignored. The source numbers the rows
  of each call from 1 and inserts them without looking for an existing row, into a
  table whose \<open>id\<close> is the primary key. After a first call has stored the association
  of document 7, a second call with the same results raises; so does a call for
  document 8, which is left without any association.
\<close>

theorem second_persist_raises:
  "persist_ticker_associations one_ticker_db 7 [aapl_result]
     = (None, one_ticker_db\<lparr>article_ticker_associations :=
          [\<lparr>assoc_id = 1, assoc_article_id = 7, assoc_ticker_id = 1,
            assoc_confidence = 9 / 10, assoc_match_method = ''known_symbol'',
            assoc_context_snippet = ''AAPL rallied''\<rparr>]\<rparr>)
   \<and> (let db = snd (persist_ticker_associations one_ticker_db 7 [aapl_result])
      in persist_ticker_associations db 7 [aapl_result] = (Some ConstraintException, db)
         \<and> persist_ticker_associations db 8 [aapl_result] = (Some ConstraintException, db)
         \<and> associations_of db 8 ''AAPL'' = [])"
  by code_simp

subsection \<open>The loader\<close>

lemma store_aliases_symbol_dict:
  "symbol_dict (fst (store_aliases t obj aliases)) = symbol_dict t"
  by (induction aliases arbitrary: t) (auto split: sum.splits)

lemma store_aliases_error:
  "snd (store_aliases t obj aliases) = snd (store_aliases t' obj aliases)"
  by (induction aliases arbitrary: t t') (auto split: sum.splits)

lemma load_row_error: "snd (load_row t row) = row_error row"
  unfolding row_error_def load_row_def store_symbol_def Let_def
  by (auto split: sum.splits option.splits intro: store_aliases_error)

lemma load_row_symbol_dict:
  "symbol_dict (fst (load_row t row))
   = (case parse_aliases (row_aliases row) of
        Inl e \<Rightarrow> symbol_dict t
      | Inr v \<Rightarrow> AList.update (row_symbol row) (make_symbol_obj row v) (symbol_dict t))"
  by (auto simp: load_row_def store_symbol_def Let_def make_symbol_obj_def
        store_aliases_symbol_dict split: sum.splits option.splits)

lemma clean_row_parses:
  assumes "row_error row = None"
  shows "\<exists>v. parse_aliases (row_aliases row) = Inr v"
  using assms by (cases "parse_aliases (row_aliases row)") (simp_all add: row_error_def load_row_def)

lemma load_rows_clean:
  assumes "\<forall>r \<in> set before. row_error r = None"
  shows "load_rows t (before @ rest) = load_rows (fst (load_rows t before)) rest
         \<and> snd (load_rows t before) = None"
  using assms
proof (induction before arbitrary: t)
  case Nil
  then show ?case by simp
next
  case (Cons row before)
  then have "snd (load_row t row) = None" by (simp add: load_row_error)
  then obtain t' where "load_row t row = (t', None)" by (cases "load_row t row") simp
  with Cons show ?case by simp
qed

lemma load_rows_raising:
  assumes "row_error bad = Some e"
  shows "load_rows t (bad # after) = (fst (load_row t bad), Some e)"
proof -
  from assms have "snd (load_row t bad) = Some e" by (simp add: load_row_error)
  then show ?thesis by (cases "load_row t bad") simp
qed

lemma load_rows_lookup:
  assumes "\<forall>r \<in> set rows. row_error r = None" and "distinct (map row_symbol rows)"
  shows "(\<forall>r \<in> set rows. \<exists>v. parse_aliases (row_aliases r) = Inr v
            \<and> map_of (symbol_dict (fst (load_rows t rows))) (row_symbol r)
                = Some (make_symbol_obj r v))
         \<and> (\<forall>k. k \<notin> row_symbol ` set rows
              \<longrightarrow> map_of (symbol_dict (fst (load_rows t rows))) k = map_of (symbol_dict t) k)"
  using assms
proof (induction rows arbitrary: t)
  case Nil
  then show ?case by simp
next
  case (Cons row rows)
  from Cons.prems(1) have clean: "row_error row = None" by simp
  then obtain v where v: "parse_aliases (row_aliases row) = Inr v"
    using clean_row_parses by blast
  define t' where "t' = fst (load_row t row)"
  have "snd (load_row t row) = None" using clean by (simp add: load_row_error)
  then have step: "load_rows t (row # rows) = load_rows t' rows"
    by (cases "load_row t row") (simp add: t'_def)
  have dict: "map_of (symbol_dict t') = (map_of (symbol_dict t))(row_symbol row \<mapsto> make_symbol_obj row v)"
    by (rule ext) (simp add: t'_def load_row_symbol_dict v update_conv)
  from Cons.prems have "\<forall>r \<in> set rows. row_error r = None" "distinct (map row_symbol rows)"
    by simp_all
  from Cons.IH [OF this, of t']
  have IH1: "\<forall>r \<in> set rows. \<exists>v. parse_aliases (row_aliases r) = Inr v
               \<and> map_of (symbol_dict (fst (load_rows t' rows))) (row_symbol r)
                   = Some (make_symbol_obj r v)"
    and IH2: "\<forall>k. k \<notin> row_symbol ` set rows
               \<longrightarrow> map_of (symbol_dict (fst (load_rows t' rows))) k = map_of (symbol_dict t') k"
    by blast+
  have fresh: "row_symbol row \<notin> row_symbol ` set rows" using Cons.prems(2) by simp
  have "map_of (symbol_dict (fst (load_rows t' rows))) (row_symbol row)
        = Some (make_symbol_obj row v)"
    using IH2 fresh dict by simp
  moreover have "map_of (symbol_dict (fst (load_rows t' rows))) k = map_of (symbol_dict t) k"
    if "k \<notin> row_symbol ` set (row # rows)" for k
    using IH2 that dict by simp
  ultimately show ?case unfolding step using IH1 v by auto
qed

text \<open>
  C4, as amended. Take a load from empty dictionaries over rows with distinct symbols, in
  which the pass for one row raises: its alias payload does not parse, or parses to a
  value that cannot be iterated or has an element that is not a string. The load stops
  at that row and records the exception, without raising to the caller. Every row
  before it is stored under its symbol; no row after it is stored; the row itself is
  not stored when its payload does not parse, and is stored with the parsed payload
  when it does.
\<close>

theorem failing_aliases_end_the_load:
  assumes clean: "\<forall>r \<in> set before. row_error r = None"
    and bad: "row_error bad = Some e"
    and uniq: "distinct (map row_symbol (before @ bad # after))"
  shows "snd (load_ticker_data empty_tagger (Inr (before @ bad # after))) = Some e
     \<and> (\<forall>r \<in> set before. \<exists>v. parse_aliases (row_aliases r) = Inr v
          \<and> map_of (symbol_dict (fst (load_ticker_data empty_tagger (Inr (before @ bad # after)))))
               (row_symbol r) = Some (make_symbol_obj r v))
     \<and> (\<forall>r \<in> set after.
          map_of (symbol_dict (fst (load_ticker_data empty_tagger (Inr (before @ bad # after)))))
            (row_symbol r) = None)
     \<and> (row_aliases bad = Unparseable \<longrightarrow>
          map_of (symbol_dict (fst (load_ticker_data empty_tagger (Inr (before @ bad # after)))))
            (row_symbol bad) = None)
     \<and> (\<forall>v. row_aliases bad = Parsed v \<longrightarrow>
          map_of (symbol_dict (fst (load_ticker_data empty_tagger (Inr (before @ bad # after)))))
            (row_symbol bad) = Some (make_symbol_obj bad v))"
proof -
  define T where "T = fst (load_rows empty_tagger before)"
  define F where "F = fst (load_ticker_data empty_tagger (Inr (before @ bad # after)))"
  have run: "load_ticker_data empty_tagger (Inr (before @ bad # after))
             = (fst (load_row T bad), Some e)"
    using load_rows_clean [OF clean, of empty_tagger "bad # after"] load_rows_raising [OF bad]
    by (simp add: load_ticker_data_def T_def)
  then have F: "F = fst (load_row T bad)" by (simp add: F_def)
  from uniq have d: "distinct (map row_symbol before)" by simp
  from load_rows_lookup [OF clean d, of empty_tagger]
  have T1: "\<forall>r \<in> set before. \<exists>v. parse_aliases (row_aliases r) = Inr v
              \<and> map_of (symbol_dict T) (row_symbol r) = Some (make_symbol_obj r v)"
    and T2: "\<forall>k. k \<notin> row_symbol ` set before \<longrightarrow> map_of (symbol_dict T) k = None"
    by (simp_all add: T_def empty_tagger_def)
  have other: "map_of (symbol_dict F) k = map_of (symbol_dict T) k" if "k \<noteq> row_symbol bad" for k
    using that unfolding F load_row_symbol_dict by (simp add: update_conv split: sum.splits)
  have bad_new: "row_symbol bad \<notin> row_symbol ` set before"
    and bad_after: "row_symbol bad \<notin> row_symbol ` set after"
    and apart: "row_symbol ` set before \<inter> row_symbol ` set after = {}"
    using uniq by auto
  have before_bad: "row_symbol r \<noteq> row_symbol bad" if "r \<in> set before" for r
    using bad_new that by (metis image_eqI)
  have after_bad: "row_symbol r \<noteq> row_symbol bad \<and> row_symbol r \<notin> row_symbol ` set before"
    if "r \<in> set after" for r
  proof -
    have "row_symbol r \<in> row_symbol ` set after" using that by (rule imageI)
    with bad_after apart show ?thesis by (metis disjoint_iff)
  qed
  have c1: "snd (load_ticker_data empty_tagger (Inr (before @ bad # after))) = Some e"
    using run by simp
  have c2: "\<forall>r \<in> set before. \<exists>v. parse_aliases (row_aliases r) = Inr v
              \<and> map_of (symbol_dict F) (row_symbol r) = Some (make_symbol_obj r v)"
    using T1 other before_bad by simp
  have c3: "\<forall>r \<in> set after. map_of (symbol_dict F) (row_symbol r) = None"
    using T2 other after_bad by simp
  have c4: "row_aliases bad = Unparseable \<longrightarrow> map_of (symbol_dict F) (row_symbol bad) = None"
    using T2 bad_new unfolding F load_row_symbol_dict by (simp add: parse_aliases_def)
  have c5: "\<forall>v. row_aliases bad = Parsed v
              \<longrightarrow> map_of (symbol_dict F) (row_symbol bad) = Some (make_symbol_obj bad v)"
    unfolding F load_row_symbol_dict by (simp add: parse_aliases_def update_conv)
  from c1 c2 c3 c4 c5 show ?thesis unfolding F_def by blast
qed

theorem failing_aliases_end_the_load_witness:
  "row_error aapl_row = None \<and> row_error msft_row = Some JSONDecodeError
   \<and> distinct (map row_symbol ([aapl_row] @ msft_row # [tsla_row]))
   \<and> row_aliases msft_row = Unparseable
   \<and> snd (load_ticker_data empty_tagger (Inr ([aapl_row] @ msft_row # [tsla_row])))
       = Some JSONDecodeError
   \<and> map_of (symbol_dict (fst (load_ticker_data empty_tagger
         (Inr ([aapl_row] @ msft_row # [tsla_row]))))) (row_symbol aapl_row)
       = Some (make_symbol_obj aapl_row (JList [JStr ''Apple'']))
   \<and> map_of (symbol_dict (fst (load_ticker_data empty_tagger
         (Inr ([aapl_row] @ msft_row # [tsla_row]))))) (row_symbol tsla_row) = None
   \<and> map_of (symbol_dict (fst (load_ticker_data empty_tagger
         (Inr ([aapl_row] @ msft_row # [tsla_row]))))) (row_symbol msft_row) = None"
proof -
  let ?F = "fst (load_ticker_data empty_tagger (Inr ([aapl_row] @ msft_row # [tsla_row])))"
  have a: "row_error aapl_row = None" by code_simp
  then have a': "\<forall>r \<in> set [aapl_row]. row_error r = None" by simp
  have b: "row_error msft_row = Some JSONDecodeError" by code_simp
  have c: "distinct (map row_symbol ([aapl_row] @ msft_row # [tsla_row]))" by code_simp
  have u: "row_aliases msft_row = Unparseable" by (simp add: msft_row_def)
  have p: "parse_aliases (row_aliases aapl_row) = Inr (JList [JStr ''Apple''])"
    by (simp add: aapl_row_def parse_aliases_def)
  note facts = failing_aliases_end_the_load [OF a' b c]
  from facts have 1: "snd (load_ticker_data empty_tagger (Inr ([aapl_row] @ msft_row # [tsla_row])))
                    = Some JSONDecodeError" by blast
  from facts have "\<exists>v. parse_aliases (row_aliases aapl_row) = Inr v
                  \<and> map_of (symbol_dict ?F) (row_symbol aapl_row) = Some (make_symbol_obj aapl_row v)"
    by simp
  with p have 2: "map_of (symbol_dict ?F) (row_symbol aapl_row)
                  = Some (make_symbol_obj aapl_row (JList [JStr ''Apple'']))" by simp
  from facts have 3: "map_of (symbol_dict ?F) (row_symbol tsla_row) = None" by simp
  from facts u have 4: "map_of (symbol_dict ?F) (row_symbol msft_row) = None" by blast
  from a b c u 1 2 3 4 show ?thesis by blast
qed

text \<open>
  C4, as stated, fails: with the unparseable record \<open>MSFT\<close> between \<open>AAPL\<close> and
  \<open>TSLA\<close>, the loader stores \<open>AAPL\<close> only; \<open>MSFT\<close> is not stored with an empty alias
  list, and \<open>TSLA\<close> is not stored.
\<close>

theorem malformed_aliases_abort_the_load:
  "row_aliases msft_row = Unparseable
   \<and> (let t = fst (load_ticker_data empty_tagger (Inr [aapl_row, msft_row, tsla_row]))
      in map_of (symbol_dict t) ''MSFT'' = None \<and> map_of (symbol_dict t) ''TSLA'' = None
         \<and> map fst (symbol_dict t) = [''AAPL''])"
  by code_simp

text \<open>
  Two more payloads. A list with an element that is not a string, as \<open>["Nvidia", 2]\<close>,
  raises after its record and the aliases before that element are stored, and the rows
  after it are not loaded. A payload that is a string, as \<open>"Fb"\<close>, raises nothing: its
  characters become the aliases, and the load goes on.
\<close>

lemma non_string_alias_example:
  "(let (t, e) = load_ticker_data empty_tagger (Inr [aapl_row, nvda_row, tsla_row])
    in e = Some AttributeError \<and> map fst (symbol_dict t) = [''AAPL'', ''NVDA'']
       \<and> map fst (company_name_dict t) = [''apple inc'', ''nvidia corporation'']
       \<and> map fst (alias_dict t) = [''apple'', ''nvidia''])"
  by code_simp

lemma string_payload_example:
  "(let (t, e) = load_ticker_data empty_tagger (Inr [meta_row, tsla_row])
    in e = None \<and> map fst (symbol_dict t) = [''META'', ''TSLA'']
       \<and> map fst (alias_dict t) = [''f'', ''b''])"
  by code_simp

subsection \<open>Arithmetic of the merged confidence\<close>

text \<open>
  With \<open>M\<close> the greatest and \<open>mu\<close> the mean of the confidences of \<open>N\<close> mentions, one
  more mention of confidence \<open>c\<close> changes the mean to \<open>mu'\<close> with
  \<open>mu' * (N + 1) = mu * N + c\<close>.
\<close>

lemma boost_step:
  fixes M M' mu mu' c N :: real
  assumes N: "2 \<le> N" and avg: "mu' * (N + 1) = mu * N + c"
    and mu_lo: "55 / 100 \<le> mu" and mu_hi: "mu \<le> M" and M1: "M \<le> 1"
    and c_lo: "55 / 100 \<le> c" and M': "M \<le> M'"
  shows "min ((M * (7 / 10) + mu * (3 / 10)) * (1 + N * (5 / 100))) 1
         \<le> (M' * (7 / 10) + mu' * (3 / 10)) * (1 + (N + 1) * (5 / 100))"
proof -
  define B where "B = M * (7 / 10) + mu * (3 / 10)"
  define k where "k = 1 + N * (5 / 100)"
  define W where "W = (M * (7 / 10) + mu' * (3 / 10)) * (1 + (N + 1) * (5 / 100))"
  define x where "x = mu - mu'"
  have xN: "x * (N + 1) = mu - c"
    using avg by (simp add: x_def algebra_simps)
  have W_eq: "W = B * k + M * (35 / 1000) + c * (15 / 1000) - x * (3 / 10)"
  proof -
    have e1: "W = M * (735 / 1000) + (M * N) * (35 / 1000) + mu' * (315 / 1000)
                  + (mu' * N) * (15 / 1000)"
      by (simp add: W_def field_simps)
    have e2: "B * k = M * (7 / 10) + (M * N) * (35 / 1000) + mu * (3 / 10)
                  + (mu * N) * (15 / 1000)"
      by (simp add: B_def k_def field_simps)
    have e3: "mu' * N = mu * N + c - mu'"
      using avg by (simp add: algebra_simps)
    show ?thesis unfolding e1 e2 e3 x_def by (simp add: field_simps)
  qed
  have x_bound: "x * 3 \<le> max 0 (mu - c)"
  proof (cases "0 \<le> x")
    case True
    have "x * 2 \<le> x * N" using True N by (simp add: mult_left_mono)
    then have "x * 3 \<le> x * (N + 1)" by (simp add: algebra_simps)
    then show ?thesis using xN by simp
  next
    case False
    then show ?thesis by simp
  qed
  have mu'_pos: "0 \<le> mu'"
  proof -
    have "0 \<le> mu * N + c" using mu_lo c_lo N by simp
    then have "0 \<le> mu' * (N + 1)" using avg by simp
    then show ?thesis using N by (simp add: zero_le_mult_iff)
  qed
  have W_le: "W \<le> (M' * (7 / 10) + mu' * (3 / 10)) * (1 + (N + 1) * (5 / 100))"
    unfolding W_def using M' N by (intro mult_right_mono) auto
  have step: "B * k + 6325 / 100000 - mu * (65 / 1000) \<le> W"
  proof (cases "0 \<le> mu - c")
    case True
    then have "x * 3 \<le> mu - c" using x_bound by simp
    then show ?thesis using W_eq mu_hi c_lo by linarith
  next
    case False
    then have "x * 3 \<le> 0" using x_bound by simp
    then show ?thesis using W_eq mu_hi mu_lo c_lo by linarith
  qed
  have B_mu: "mu \<le> B" using mu_hi by (simp add: B_def)
  have k_lo: "11 / 10 \<le> k" using N by (simp add: k_def)
  have Bk: "mu * (11 / 10) \<le> B * k"
  proof -
    have "mu * (11 / 10) \<le> B * (11 / 10)" using B_mu by simp
    also have "\<dots> \<le> B * k" using k_lo B_mu mu_lo by (intro mult_left_mono) auto
    finally show ?thesis .
  qed
  have "min (B * k) 1 \<le> W"
  proof (cases "mu * (65 / 1000) \<le> 6325 / 100000")
    case True
    then have "B * k \<le> W" using step by simp
    then show ?thesis by simp
  next
    case False
    then have "1 \<le> W" using step Bk mu_hi M1 by simp
    then show ?thesis by simp
  qed
  then show ?thesis using W_le by (simp add: B_def k_def)
qed

lemma first_step:
  fixes M M' mu mu' c :: real
  assumes avg: "mu' * 2 = mu + c"
    and mu_hi: "mu \<le> M" and M1: "M \<le> 1"
    and c_lo: "55 / 100 \<le> c" and M': "M \<le> M'"
  shows "M * (7 / 10) + mu * (3 / 10)
         \<le> (M' * (7 / 10) + mu' * (3 / 10)) * (1 + 2 * (5 / 100))"
  using assms by (simp add: algebra_simps)


lemma set_uniq: "set (uniq xs) = set xs"
  by (induction xs rule: uniq.induct) auto

lemma sum_list_lower:
  fixes xs :: "real list"
  shows "(\<forall>x \<in> set xs. a \<le> x) \<Longrightarrow> a * real (length xs) \<le> sum_list xs"
  by (induction xs) (auto simp: algebra_simps)

lemma sum_list_upper:
  fixes xs :: "real list"
  shows "(\<forall>x \<in> set xs. x \<le> b) \<Longrightarrow> sum_list xs \<le> b * real (length xs)"
  by (induction xs) (auto simp: algebra_simps)

lemma mean_bounds:
  fixes xs :: "real list"
  assumes "xs \<noteq> []" "\<forall>x \<in> set xs. a \<le> x \<and> x \<le> b"
  shows "a \<le> sum_list xs / real (length xs)" "sum_list xs / real (length xs) \<le> b"
proof -
  have pos: "0 < real (length xs)" using assms(1) by simp
  have "a * real (length xs) \<le> sum_list xs" using assms(2) by (intro sum_list_lower) auto
  then show "a \<le> sum_list xs / real (length xs)" using pos by (simp add: pos_le_divide_eq)
  have "sum_list xs \<le> b * real (length xs)" using assms(2) by (intro sum_list_upper) auto
  then show "sum_list xs / real (length xs) \<le> b" using pos by (simp add: pos_divide_le_eq)
qed

lemma mean_le_Max:
  fixes xs :: "real list"
  assumes "xs \<noteq> []"
  shows "sum_list xs / real (length xs) \<le> Max (set xs)"
  using mean_bounds(2) [OF assms, of "Min (set xs)" "Max (set xs)"] by simp

lemma Max_bounds:
  fixes xs :: "real list"
  assumes "xs \<noteq> []" "\<forall>x \<in> set xs. a \<le> x \<and> x \<le> b"
  shows "a \<le> Max (set xs)" "Max (set xs) \<le> b"
proof -
  have "Max (set xs) \<in> set xs" using assms(1) by (intro Max_in) auto
  with assms(2) show "a \<le> Max (set xs)" "Max (set xs) \<le> b" by auto
qed

lemma final_confidence_bounds:
  assumes "cs \<noteq> []" "\<forall>c \<in> set cs. 0 \<le> c \<and> c \<le> 1"
  shows "0 \<le> final_confidence cs n \<and> final_confidence cs n \<le> 1"
proof -
  define B where "B = Max (set cs) * (7 / 10) + (sum_list cs / real (length cs)) * (3 / 10)"
  have "0 \<le> B" "B \<le> 1"
    using Max_bounds [OF assms] mean_bounds [OF assms] by (simp_all add: B_def)
  moreover from \<open>0 \<le> B\<close> have "0 \<le> B * (1 + real n * (5 / 100))" by simp
  moreover have "final_confidence cs n
                 = (if 1 < n then min (B * (1 + real n * (5 / 100))) 1 else B)"
    by (simp add: final_confidence_def B_def Let_def)
  ultimately show ?thesis by simp
qed

lemma final_confidence_grows:
  assumes ne: "cs \<noteq> []"
    and cs: "\<forall>x \<in> set cs. 55 / 100 \<le> x \<and> x \<le> 1"
    and c: "55 / 100 \<le> c" "c \<le> 1"
    and set': "set cs' = insert c (set cs)"
    and sum': "sum_list cs' = sum_list cs + c"
    and len': "length cs' = Suc (length cs)"
  shows "final_confidence cs (length cs) \<le> final_confidence cs' (length cs')"
proof -
  define N where "N = real (length cs)"
  define M where "M = Max (set cs)"
  define M' where "M' = Max (set cs')"
  define mu where "mu = sum_list cs / N"
  define mu' where "mu' = sum_list cs' / (N + 1)"
  have N1: "1 \<le> N" using ne by (cases cs) (simp_all add: N_def)
  have avg: "mu' * (N + 1) = mu * N + c"
    using N1 by (simp add: mu_def mu'_def sum')
  have mu_lo: "55 / 100 \<le> mu" and mu_hi: "mu \<le> M" and M1: "M \<le> 1"
    using mean_bounds(1) [OF ne cs] mean_le_Max [OF ne] Max_bounds(2) [OF ne cs]
    by (simp_all add: mu_def M_def N_def)
  have MM': "M \<le> M'"
    unfolding M_def M'_def set' using ne by (intro Max_mono) auto
  have old: "final_confidence cs (length cs)
             = (if 1 < N then min ((M * (7 / 10) + mu * (3 / 10)) * (1 + N * (5 / 100))) 1
                else M * (7 / 10) + mu * (3 / 10))"
    by (simp add: final_confidence_def Let_def M_def mu_def N_def)
  have new: "final_confidence cs' (length cs')
             = min ((M' * (7 / 10) + mu' * (3 / 10)) * (1 + (N + 1) * (5 / 100))) 1"
    using ne by (simp add: final_confidence_def Let_def M'_def mu'_def N_def len' add.commute)
  show ?thesis
  proof (cases "1 < N")
    case True
    then have "1 < length cs" unfolding N_def by simp
    then have "2 \<le> length cs" by simp
    then have "real 2 \<le> real (length cs)" by (simp only: of_nat_le_iff)
    then have "2 \<le> N" by (simp add: N_def)
    from boost_step [OF this avg mu_lo mu_hi M1 c(1) MM'] True
    show ?thesis unfolding old new by simp
  next
    case False
    then have "N = 1" using N1 by simp
    with avg have "mu' * 2 = mu + c" by simp
    from first_step [OF this mu_hi M1 c(1) MM'] \<open>N = 1\<close> mu_hi M1
    show ?thesis unfolding old new by simp
  qed
qed

lemma merge_group_elem:
  assumes "r \<in> set (merge_group s g)"
  shows "g \<noteq> [] \<and> symbol r = s
         \<and> confidence r = final_confidence (map confidence g) (length (concat (map positions g)))
         \<and> match_method r = max_by method_rank (match_method (hd g)) (map match_method (tl g))"
  using assms by (cases g) (auto simp: Let_def)

lemma merge_group_nonempty: "g \<noteq> [] \<Longrightarrow> \<exists>r. r \<in> set (merge_group s g)"
  by (cases g) (auto simp: Let_def)

lemma set_deduplicate_and_score:
  "set (deduplicate_and_score matches text)
   = (\<Union>s \<in> symbol ` set matches. set (merge_group s (group_of s matches)))"
  by (simp add: deduplicate_and_score_def set_uniq)

lemma deduplicate_and_score_elem:
  assumes "r \<in> set (deduplicate_and_score matches text)"
  shows "group_of (symbol r) matches \<noteq> []
         \<and> confidence r = final_confidence (map confidence (group_of (symbol r) matches))
              (length (concat (map positions (group_of (symbol r) matches))))"
proof -
  from assms obtain s where "r \<in> set (merge_group s (group_of s matches))"
    unfolding set_deduplicate_and_score by blast
  from merge_group_elem [OF this] show ?thesis by simp
qed

lemma deduplicate_and_score_has:
  assumes "m \<in> set matches"
  shows "\<exists>r \<in> set (deduplicate_and_score matches text). symbol r = symbol m"
proof -
  have "group_of (symbol m) matches \<noteq> []"
    using assms by (auto simp: group_of_def filter_empty_conv)
  from merge_group_nonempty [OF this] obtain r
    where r: "r \<in> set (merge_group (symbol m) (group_of (symbol m) matches))" by blast
  then have "symbol r = symbol m" using merge_group_elem by blast
  moreover have "r \<in> set (deduplicate_and_score matches text)"
    unfolding set_deduplicate_and_score using r assms by blast
  ultimately show ?thesis by blast
qed

lemma single_positions:
  "(\<forall>m \<in> set g. length (positions m) = 1) \<Longrightarrow> length (concat (map positions g)) = length g"
  by (induction g) auto

text \<open>
  C7. Each result of \<open>_deduplicate_and_score\<close> carries, for the mentions of its symbol,
  the greatest confidence times 0.7 plus the mean confidence times 0.3, and, when these
  mentions have more than one position in all, that value times
  \<open>1 + mention_count * 0.05\<close>, capped at 1. When the confidences of the mentions lie
  between 0 and 1, so does the result's.
\<close>

theorem final_confidence_formula:
  assumes "\<forall>m \<in> set matches. 0 \<le> confidence m \<and> confidence m \<le> 1"
    and "r \<in> set (deduplicate_and_score matches text)"
  shows "(let confidences = map confidence (group_of (symbol r) matches);
              mention_count = length (concat (map positions (group_of (symbol r) matches)));
              weighted = Max (set confidences) * (7 / 10)
                         + (sum_list confidences / real (length confidences)) * (3 / 10)
          in confidence r = (if 1 < mention_count
                             then min (weighted * (1 + real mention_count * (5 / 100))) 1
                             else weighted))
         \<and> 0 \<le> confidence r \<and> confidence r \<le> 1"
proof -
  let ?g = "group_of (symbol r) matches"
  from deduplicate_and_score_elem [OF assms(2)]
  have ne: "?g \<noteq> []"
    and eq: "confidence r = final_confidence (map confidence ?g) (length (concat (map positions ?g)))"
    by simp_all
  have "\<forall>c \<in> set (map confidence ?g). 0 \<le> c \<and> c \<le> 1"
    using assms(1) by (auto simp: group_of_def)
  with ne have "0 \<le> confidence r \<and> confidence r \<le> 1"
    unfolding eq by (intro final_confidence_bounds) auto
  then show ?thesis using eq by (simp add: final_confidence_def Let_def)
qed

theorem final_confidence_formula_witness:
  "0 \<le> confidence known_mention \<and> confidence known_mention \<le> 1
   \<and> 0 \<le> confidence dollar_mention \<and> confidence dollar_mention \<le> 1
   \<and> hd (deduplicate_and_score [known_mention, dollar_mention] ''$AAPL rallied'')
        \<in> set (deduplicate_and_score [known_mention, dollar_mention] ''$AAPL rallied'')
   \<and> confidence (hd (deduplicate_and_score [known_mention, dollar_mention] ''$AAPL rallied''))
        = 957 / 1000
   \<and> 0 \<le> confidence (hd (deduplicate_and_score [known_mention, dollar_mention] ''$AAPL rallied''))
   \<and> confidence (hd (deduplicate_and_score [known_mention, dollar_mention] ''$AAPL rallied'')) \<le> 1"
proof -
  let ?ms = "[known_mention, dollar_mention]"
  let ?r = "hd (deduplicate_and_score ?ms ''$AAPL rallied'')"
  have v: "0 \<le> confidence known_mention \<and> confidence known_mention \<le> 1"
    "0 \<le> confidence dollar_mention \<and> confidence dollar_mention \<le> 1"
    by (simp_all add: known_mention_def dollar_mention_def)
  then have a: "\<forall>m \<in> set ?ms. 0 \<le> confidence m \<and> confidence m \<le> 1" by simp
  have b: "?r \<in> set (deduplicate_and_score ?ms ''$AAPL rallied'')" by code_simp
  have c: "confidence ?r = 957 / 1000" by code_simp
  from final_confidence_formula [OF a b] v b c show ?thesis by blast
qed

subsection \<open>What the matchers emit\<close>

lemma known_symbol_hit_valid: "x \<in> set (known_symbol_hit t text m) \<Longrightarrow> valid_mention x"
  by (auto simp: known_symbol_hit_def valid_mention_def Let_def split: if_splits option.splits)

lemma company_name_hit_valid: "x \<in> set (company_name_hit t text m) \<Longrightarrow> valid_mention x"
  by (auto simp: company_name_hit_def valid_mention_def Let_def split: if_splits option.splits)

lemma contextual_hit_valid:
  assumes "x \<in> set (contextual_hit text m)"
  shows "valid_mention x"
proof -
  have "7 / 10 \<le> calculate_contextual_confidence k c mt
        \<and> calculate_contextual_confidence k c mt \<le> 1" for k c mt
    using indicator_bonus_nonneg [of financial_terms "py_lower mt"]
    by (simp add: calculate_contextual_confidence_def Let_def)
  then have lo: "7 / 10 \<le> confidence (contextual_mention text m)"
    and hi: "confidence (contextual_mention text m) \<le> 1"
    and one: "length (positions (contextual_mention text m)) = 1"
    by (simp_all add: contextual_mention_def Let_def)
  from lo have "55 / 100 \<le> confidence (contextual_mention text m)" by linarith
  with hi one have "valid_mention (contextual_mention text m)"
    by (simp add: valid_mention_def)
  with assms show ?thesis by (auto simp: contextual_hit_def split: if_splits)
qed

lemma indicator_bonus_le: "indicator_bonus terms s \<le> real (length terms) * (1 / 10)"
  by (simp add: indicator_bonus_def)

lemma pattern_hit_valid:
  assumes occurs: "1 \<le> py_count text ticker"
    and x: "x \<in> set (pattern_hit text ticker m)"
  shows "valid_mention x"
proof -
  define ctx where "ctx = extract_context text (m_start m) (m_end m) 50"
  define conf where "conf = calculate_pattern_confidence ticker ctx text"
  define bonus where "bonus = indicator_bonus financial_indicators (py_lower ctx)"
  define dollar :: real where "dollar = (if py_in (CHR ''$'' # ticker) text then 2 / 10 else 0)"
  define rep :: real where "rep = min (real (py_count text ticker) * (5 / 100)) (2 / 10)"
  define total where "total = 5 / 10 + bonus + dollar + rep"
  have conf_eq: "conf = min (if ticker \<in> set common_words then total * (1 / 10) else total) 1"
    by (simp add: conf_def calculate_pattern_confidence_def Let_def total_def bonus_def
          dollar_def rep_def)
  have b: "0 \<le> bonus" "bonus \<le> 11 / 10"
    using indicator_bonus_nonneg [of financial_indicators "py_lower ctx"]
      indicator_bonus_le [of financial_indicators "py_lower ctx"]
    by (simp_all add: bonus_def financial_indicators_def)
  have d: "0 \<le> dollar" "dollar \<le> 2 / 10" by (simp_all add: dollar_def)
  have "1 \<le> real (py_count text ticker)" using occurs by simp
  then have r: "5 / 100 \<le> rep" "rep \<le> 2 / 10" by (simp_all add: rep_def)
  from x have kept: "3 / 10 < conf"
    and x_eq: "confidence x = conf" "length (positions x) = 1"
    by (auto simp: pattern_hit_def Let_def conf_def ctx_def split: if_splits)
  have "55 / 100 \<le> conf \<and> conf \<le> 1"
  proof (cases "ticker \<in> set common_words")
    case True
    then have "conf \<le> total * (1 / 10)" by (simp add: conf_eq)
    also have "\<dots> \<le> 2 / 10" using b d r by (simp add: total_def)
    finally show ?thesis using kept by simp
  next
    case False
    then have "conf = min total 1" by (simp add: conf_eq)
    moreover have "55 / 100 \<le> total" using b d r by (simp add: total_def)
    ultimately show ?thesis by simp
  qed
  then show ?thesis by (simp add: valid_mention_def x_eq)
qed

lemma starts_with_ci_exact: "starts_with_ci False sub s = starts_with sub s"
  by (induction sub s rule: starts_with.induct) auto

lemma word_pattern_match_starts:
  assumes "matches_at n (word_pattern ticker) prev rest pos \<noteq> []"
  shows "starts_with ticker rest"
proof (rule ccontr)
  assume no: "\<not> starts_with ticker rest"
  let ?st = "(prev, rest, pos, [])"
  have inner: "rmatch n False (Seq (Lit ticker) Bnd) ?st = []"
    using no by (simp add: starts_with_ci_exact)
  have "rmatch n False (Seq Bnd (Seq (Lit ticker) Bnd)) ?st
        = (if at_boundary ?st then rmatch n False (Seq (Lit ticker) Bnd) ?st else [])"
    by simp
  with inner have "rmatch n False (Seq Bnd (Seq (Lit ticker) Bnd)) ?st = []"
    by (simp only: if_cancel)
  then have "matches_at n (word_pattern ticker) prev rest pos = []"
    by (simp only: matches_at_def word_pattern_def seqs.simps fst_conv snd_conv list.map)
  with assms show False by simp
qed

lemma pick_subset: "set (pick ms) \<subseteq> set ms"
  by (cases ms) (auto simp: pick_def dest: in_set_takeD)

lemma scan_match_somewhere:
  assumes "x \<in> set (scan k n p prev rest pos)"
  shows "\<exists>pre suf prev' pos'. rest = pre @ suf \<and> matches_at n p prev' suf pos' \<noteq> []"
  using assms
proof (induction k n p prev rest pos rule: scan.induct)
  case (1 k n p prev pos)
  then show ?case by simp
next
  case (2 k n p prev c cs pos)
  then obtain pre suf prev' pos' where "cs = pre @ suf" "matches_at n p prev' suf pos' \<noteq> []"
    by auto
  then have "c # cs = (c # pre) @ suf" by simp
  with \<open>matches_at n p prev' suf pos' \<noteq> []\<close> show ?case by blast
next
  case (3 n p prev pos)
  then have "matches_at n p prev [] pos \<noteq> []" by auto
  then show ?case by blast
next
  case (4 n p prev c cs pos)
  let ?found = "pick (matches_at n p prev (c # cs) pos)"
  from "4.prems" consider "x \<in> set ?found"
    | "x \<in> set (scan (match_len ?found - 1) n p (Some c) cs (Suc pos))"
    by (auto simp: Let_def)
  then show ?case
  proof cases
    case 1
    then have "matches_at n p prev (c # cs) pos \<noteq> []" using pick_subset by fastforce
    then have "c # cs = [] @ (c # cs) \<and> matches_at n p prev (c # cs) pos \<noteq> []" by simp
    then show ?thesis by blast
  next
    case 2
    from "4.IH" [OF refl 2] obtain pre suf prev' pos'
      where "cs = pre @ suf" "matches_at n p prev' suf pos' \<noteq> []" by auto
    then have "c # cs = (c # pre) @ suf" by simp
    with \<open>matches_at n p prev' suf pos' \<noteq> []\<close> show ?thesis by blast
  qed
qed

lemma count_from_occurrence:
  assumes "sub \<noteq> []" "starts_with sub suf"
  shows "1 \<le> count_from 0 sub (pre @ suf)"
proof (induction pre)
  case Nil
  from assms obtain c cs where "suf = c # cs" by (cases sub; cases suf) auto
  with assms show ?case by simp
next
  case (Cons a pre)
  then show ?case by simp
qed

lemma word_match_occurs:
  assumes "m \<in> set (finditer (word_pattern ticker) text)"
  shows "1 \<le> py_count text ticker"
proof (cases "ticker = []")
  case True
  then show ?thesis by (simp add: py_count_def)
next
  case False
  from assms have "m \<in> set (scan 0 (length text) (word_pattern ticker) None text 0)"
    by (simp only: finditer_def)
  from scan_match_somewhere [OF this] obtain pre suf prev' pos'
    where parts: "text = pre @ suf"
      and hit: "matches_at (length text) (word_pattern ticker) prev' suf pos' \<noteq> []"
    by blast
  have "starts_with ticker suf" by (rule word_pattern_match_starts [OF hit])
  from count_from_occurrence [OF False this, of pre]
  have "1 \<le> count_from 0 ticker text" by (simp only: parts)
  with False show ?thesis by (simp only: py_count_def if_False)
qed

lemma pattern_mention_valid:
  assumes "m \<in> set (finditer (word_pattern ticker) text)"
    and "x \<in> set (pattern_hit text ticker m)"
  shows "valid_mention x"
  using pattern_hit_valid [OF word_match_occurs [OF assms(1)] assms(2)] .

lemma match_known_symbols_valid: "x \<in> set (match_known_symbols t text) \<Longrightarrow> valid_mention x"
  by (auto simp: match_known_symbols_def split: option.splits dest: known_symbol_hit_valid)

lemma match_company_names_valid: "x \<in> set (match_company_names t text) \<Longrightarrow> valid_mention x"
  by (auto simp: match_company_names_def split: option.splits dest: company_name_hit_valid)

lemma match_contextual_tickers_valid: "x \<in> set (match_contextual_tickers text) \<Longrightarrow> valid_mention x"
  by (auto simp: match_contextual_tickers_def dest: contextual_hit_valid)

subsection \<open>Monotonicity of the merge\<close>

text \<open>The lower bound 0.55 matters: a third mention of confidence 0.5 would lower
  the result of two mentions of confidence 0.9.\<close>

lemma low_confidence_lowers_the_result:
  "final_confidence [9 / 10, 9 / 10, 5 / 10] 3 < final_confidence [9 / 10, 9 / 10] 2"
  by (simp add: final_confidence_def)

text \<open>
  C3. Let the mentions be such as the matchers emit (\<open>valid_mention\<close>), and let the
  symbol of the mention \<open>m\<close> have a result \<open>r\<close> for the mentions \<open>before @ after\<close>. With
  \<open>m\<close> added anywhere among them, the symbol still has a result, and its confidence is
  not below that of \<open>r\<close>.
\<close>

theorem merge_monotone:
  assumes valid: "\<forall>x \<in> set (before @ m # after). valid_mention x"
    and r: "r \<in> set (deduplicate_and_score (before @ after) text)"
    and same: "symbol r = symbol m"
  shows "(\<exists>r' \<in> set (deduplicate_and_score (before @ m # after) text). symbol r' = symbol m)
         \<and> (\<forall>r' \<in> set (deduplicate_and_score (before @ m # after) text).
              symbol r' = symbol m \<longrightarrow> confidence r \<le> confidence r')"
proof -
  let ?s = "symbol m"
  let ?g = "group_of ?s (before @ after)"
  let ?g' = "group_of ?s (before @ m # after)"
  have g': "?g' = group_of ?s before @ m # group_of ?s after"
    by (simp add: group_of_def)
  have g: "?g = group_of ?s before @ group_of ?s after"
    by (simp add: group_of_def)
  from deduplicate_and_score_elem [OF r] same
  have ne: "?g \<noteq> []"
    and old: "confidence r = final_confidence (map confidence ?g) (length (concat (map positions ?g)))"
    by simp_all
  have one: "\<forall>x \<in> set ?g. length (positions x) = 1" "\<forall>x \<in> set ?g'. length (positions x) = 1"
    using valid by (auto simp: group_of_def valid_mention_def)
  have cnt: "length (concat (map positions ?g)) = length (map confidence ?g)"
       "length (concat (map positions ?g')) = length (map confidence ?g')"
    using single_positions [OF one(1)] single_positions [OF one(2)] by simp_all
  have "final_confidence (map confidence ?g) (length (map confidence ?g))
        \<le> final_confidence (map confidence ?g') (length (map confidence ?g'))"
  proof (rule final_confidence_grows [where c = "confidence m"])
    show "map confidence ?g \<noteq> []" using ne by simp
    show "\<forall>x \<in> set (map confidence ?g). 55 / 100 \<le> x \<and> x \<le> 1"
      using valid by (auto simp: group_of_def valid_mention_def)
    show "55 / 100 \<le> confidence m" "confidence m \<le> 1"
      using valid by (simp_all add: valid_mention_def)
    show "set (map confidence ?g') = insert (confidence m) (set (map confidence ?g))"
      unfolding g g' by auto
    show "sum_list (map confidence ?g') = sum_list (map confidence ?g) + confidence m"
      unfolding g g' by simp
    show "length (map confidence ?g') = Suc (length (map confidence ?g))"
      unfolding g g' by simp
  qed
  then have grow: "confidence r \<le> final_confidence (map confidence ?g') (length (concat (map positions ?g')))"
    unfolding old cnt .
  have "\<exists>r' \<in> set (deduplicate_and_score (before @ m # after) text). symbol r' = symbol m"
    by (rule deduplicate_and_score_has) simp
  moreover have "confidence r \<le> confidence r'"
    if "r' \<in> set (deduplicate_and_score (before @ m # after) text)" "symbol r' = symbol m" for r'
    using deduplicate_and_score_elem [OF that(1)] that(2) grow by simp
  ultimately show ?thesis by blast
qed


theorem merge_monotone_witness:
  "valid_mention known_mention \<and> valid_mention dollar_mention
   \<and> hd (deduplicate_and_score ([known_mention] @ []) ''$AAPL rallied'')
        \<in> set (deduplicate_and_score ([known_mention] @ []) ''$AAPL rallied'')
   \<and> symbol (hd (deduplicate_and_score ([known_mention] @ []) ''$AAPL rallied''))
        = symbol dollar_mention
   \<and> hd (deduplicate_and_score ([known_mention] @ dollar_mention # []) ''$AAPL rallied'')
        \<in> set (deduplicate_and_score ([known_mention] @ dollar_mention # []) ''$AAPL rallied'')
   \<and> symbol (hd (deduplicate_and_score ([known_mention] @ dollar_mention # [])
                    ''$AAPL rallied''))
        = symbol dollar_mention
   \<and> confidence (hd (deduplicate_and_score ([known_mention] @ []) ''$AAPL rallied''))
        \<le> confidence (hd (deduplicate_and_score ([known_mention] @ dollar_mention # [])
                             ''$AAPL rallied''))"
proof -
  let ?T = "''$AAPL rallied''"
  let ?r = "hd (deduplicate_and_score ([known_mention] @ []) ?T)"
  let ?r' = "hd (deduplicate_and_score ([known_mention] @ dollar_mention # []) ?T)"
  have v: "valid_mention known_mention" "valid_mention dollar_mention" by code_simp+
  then have a: "\<forall>x \<in> set ([known_mention] @ dollar_mention # []). valid_mention x" by simp
  have b: "?r \<in> set (deduplicate_and_score ([known_mention] @ []) ?T)" by code_simp
  have c: "symbol ?r = symbol dollar_mention" by code_simp
  have d: "?r' \<in> set (deduplicate_and_score ([known_mention] @ dollar_mention # []) ?T)"
    by code_simp
  have e: "symbol ?r' = symbol dollar_mention" by code_simp
  from merge_monotone [OF a b c] d e have "confidence ?r \<le> confidence ?r'" by blast
  with v b c d e show ?thesis by blast
qed

subsection \<open>The blacklist\<close>

















text \<open>
  The company-name matcher gives its mention the symbol of the record that owns the
  matched name, and does not consult the blacklist for it. With the symbol \<open>ALL\<close>
  loaded under the name \<open>Allstate Corporation\<close>, merging that mention by hand gives a
  result for \<open>ALL\<close>; \<open>tag_article_text\<close> ends with its exception before it merges.
\<close>

lemma company_name_yields_blacklisted_symbol:
  "''ALL'' \<in> TICKER_BLACKLIST
   \<and> map symbol (deduplicate_and_score
        (match_company_names (init_tagger (Inr [allstate_row]))
           ''Allstate Corporation raised guidance'')
        ''Allstate Corporation raised guidance'') = [''ALL'']"
  by code_simp

subsection \<open>The result for a known symbol\<close>

text \<open>
  When a symbol has a mention of the known-symbol matcher, and all its mentions have one
  position and a confidence from 0.7 to 1 (as those of the known-symbol, company-name
  and contextual matchers have), its merged result has the method \<open>known_symbol\<close> and
  a confidence of at least 0.9.
\<close>

lemma method_rank_known: "method_rank m \<le> 4 \<and> (method_rank m = 4 \<longleftrightarrow> m = ''known_symbol'')"
  by (simp add: method_rank_def)

lemma max_by_known:
  "''known_symbol'' \<in> set (b # xs) \<Longrightarrow> max_by method_rank b xs = ''known_symbol''"
proof (induction xs arbitrary: b)
  case Nil
  then show ?case by simp
next
  case (Cons x xs)
  show ?case
  proof (cases "method_rank b < method_rank x")
    case True
    then have "b \<noteq> ''known_symbol''"
      using method_rank_known [of x] method_rank_known [of b] by auto
    with Cons.prems have "''known_symbol'' \<in> set (x # xs)" by auto
    from Cons.IH [OF this] True show ?thesis by simp
  next
    case False
    then have "x = ''known_symbol'' \<Longrightarrow> b = ''known_symbol''"
      using method_rank_known [of x] method_rank_known [of b] by auto
    with Cons.prems have "''known_symbol'' \<in> set (b # xs)" by auto
    from Cons.IH [OF this] False show ?thesis by simp
  qed
qed

lemma known_symbol_result:
  assumes k: "k \<in> set matches" "match_method k = ''known_symbol''" "confidence k = 9 / 10"
    and others: "\<forall>x \<in> set (group_of (symbol k) matches).
                   length (positions x) = 1 \<and> 7 / 10 \<le> confidence x \<and> confidence x \<le> 1"
    and r: "r \<in> set (deduplicate_and_score matches text)" "symbol r = symbol k"
  shows "match_method r = ''known_symbol'' \<and> 9 / 10 \<le> confidence r"
proof -
  let ?g = "group_of (symbol k) matches"
  let ?cs = "map confidence ?g"
  from r obtain s where "r \<in> set (merge_group s ?g)" "s = symbol k"
    unfolding set_deduplicate_and_score using merge_group_elem by fastforce
  from merge_group_elem [OF this(1)]
  have ne: "?g \<noteq> []"
    and conf: "confidence r = final_confidence ?cs (length (concat (map positions ?g)))"
    and meth: "match_method r = max_by method_rank (match_method (hd ?g)) (map match_method (tl ?g))"
    by simp_all
  have kg: "k \<in> set ?g" using k(1) by (simp add: group_of_def)
  have "match_method (hd ?g) # map match_method (tl ?g) = map match_method ?g"
    using ne by (cases ?g) simp_all
  then have "''known_symbol'' \<in> set (match_method (hd ?g) # map match_method (tl ?g))"
    using kg k(2) by (metis image_eqI list.set_map)
  from max_by_known [OF this] meth have m: "match_method r = ''known_symbol''" by simp
  have cnt: "length (concat (map positions ?g)) = length ?g"
    using others by (intro single_positions) auto
  define M where "M = Max (set ?cs)"
  define mu where "mu = sum_list ?cs / real (length ?cs)"
  have cs_ne: "?cs \<noteq> []" using ne by simp
  have bnd: "\<forall>c \<in> set ?cs. 7 / 10 \<le> c \<and> c \<le> 1" using others by auto
  have "confidence k \<in> set ?cs" using kg by simp
  then have "confidence k \<le> M" unfolding M_def by (intro Max_ge) auto
  then have M_lo: "9 / 10 \<le> M" using k(3) by simp
  have mu_lo: "7 / 10 \<le> mu" using mean_bounds(1) [OF cs_ne bnd] by (simp add: mu_def)
  have fc: "confidence r = (if 1 < length ?g
              then min ((M * (7 / 10) + mu * (3 / 10)) * (1 + real (length ?g) * (5 / 100))) 1
              else M * (7 / 10) + mu * (3 / 10))"
    unfolding conf cnt by (simp add: final_confidence_def Let_def M_def mu_def)
  have "9 / 10 \<le> confidence r"
  proof (cases "1 < length ?g")
    case True
    then have "2 \<le> length ?g" by simp
    then have "real 2 \<le> real (length ?g)" by (simp only: of_nat_le_iff)
    then have "11 / 10 \<le> 1 + real (length ?g) * (5 / 100)" by simp
    moreover have "84 / 100 \<le> M * (7 / 10) + mu * (3 / 10)" using M_lo mu_lo by simp
    ultimately have "(84 / 100) * (11 / 10)
        \<le> (M * (7 / 10) + mu * (3 / 10)) * (1 + real (length ?g) * (5 / 100))"
      by (intro mult_mono) auto
    then show ?thesis using True unfolding fc by simp
  next
    case False
    then have "length ?g = 1" using ne by (cases ?g) auto
    then obtain a where "?g = [a]" by (cases ?g) auto
    with kg have "?g = [k]" by simp
    then have "M = 9 / 10" "mu = 9 / 10" by (simp_all add: M_def mu_def k(3))
    then show ?thesis using False unfolding fc by simp
  qed
  with m show ?thesis by simp
qed

lemma known_symbol_example:
  "map (\<lambda>r. (symbol r, match_method r, confidence r))
     (deduplicate_and_score
        (match_known_symbols (init_tagger (Inr [aapl_row])) ''Markets AAPL rallied''
         @ match_company_names (init_tagger (Inr [aapl_row])) ''Markets AAPL rallied''
         @ match_contextual_tickers ''Markets AAPL rallied'')
        ''Markets AAPL rallied'')
   = [(''AAPL'', ''known_symbol'', 9 / 10)]"
  by code_simp

text \<open>
  C5. The claim promises a result with method \<open>known_symbol\<close> and confidence at least
  0.9 for a text with a whole-word occurrence of a known symbol. The merge would give
  it, as the two lemmas above show. The call does not reach the merge: with \<open>AAPL\<close>
  loaded and the text \<open>Markets AAPL rallied\<close>, it ends with the \<open>TypeError\<close> of the
  pattern matcher and yields no result.
\<close>

theorem known_symbol_tagging_raises:
  "tag_article_text (init_tagger (Inr [aapl_row])) ''Markets'' ''AAPL rallied'' = Inl TypeError"
proof -
  have "py_strip (full_text ''Markets'' ''AAPL rallied'') \<noteq> []" by code_simp
  then show ?thesis by (simp add: tag_article_text_def Let_def match_ticker_patterns_raises)
qed

end
